theory Spec2Isabelle
  imports Complex_Main
begin

section \<open>The mini-ORM of tkp/database/dataset.py\<close>

text \<open>
  The module defines a generic \<^verbatim>\<open>DBObject\<close> and three classes derived from it,
  \<^verbatim>\<open>DataSet\<close>, \<^verbatim>\<open>Image\<close> and \<^verbatim>\<open>ExtractedSource\<close>. An object keeps an
  identity \<^verbatim>\<open>_id\<close>, a snapshot \<^verbatim>\<open>_data\<close> of its row and a \<^verbatim>\<open>database\<close>.
  Objects are mutable and refer to each other (an image to its dataset, a dataset to
  the set of its images), so they live in an explicit store and are named by references.
\<close>

subsection \<open>Values, errors and classes\<close>

datatype val = NoneV | IntV int | StrV string

type_synonym pydict = "string \<Rightarrow> val option"

text \<open>
  One constructor for each way the module raises:
  \<^item> \<open>MissingRequired key\<close>: \<^verbatim>\<open>AttributeError("missing required data key: %s" % key)\<close>;
  \<^item> \<open>AttributeNotFound name\<close>: \<^verbatim>\<open>AttributeError("attribute '%s' not found" % name)\<close>;
  \<^item> \<open>NoneAttribute a\<close>: the \<^verbatim>\<open>AttributeError\<close> of reading attribute \<open>a\<close> of \<^verbatim>\<open>None\<close>
    (or of a number or string, which has no such attribute either);
  \<^item> \<open>KeyError key\<close>: a failed \<^verbatim>\<open>self._data[key]\<close>;
  \<^item> \<open>ValueError\<close>: \<^verbatim>\<open>ValueError("can't create ... object without a DataBase() object")\<close>;
  \<^item> \<open>IndexError\<close>: \<^verbatim>\<open>results[0]\<close> on an empty result list.
\<close>

datatype error =
    MissingRequired string
  | AttributeNotFound string
  | NoneAttribute string
  | KeyError string
  | ValueError
  | IndexError

text \<open>The first three are instances of Python's \<^verbatim>\<open>AttributeError\<close>.\<close>

fun is_AttributeError :: "error \<Rightarrow> bool" where
  "is_AttributeError (MissingRequired _) = True"
| "is_AttributeError (AttributeNotFound _) = True"
| "is_AttributeError (NoneAttribute _) = True"
| "is_AttributeError (KeyError _) = False"
| "is_AttributeError ValueError = False"
| "is_AttributeError IndexError = False"

datatype cls = DataSet | Image | ExtractedSource

fun TABLE :: "cls \<Rightarrow> string" where
  "TABLE DataSet = ''datasets''"
| "TABLE Image = ''images''"
| "TABLE ExtractedSource = ''extractedsources''"

fun ID :: "cls \<Rightarrow> string" where
  "ID DataSet = ''dsid''"
| "ID Image = ''imageid''"
| "ID ExtractedSource = ''xtrsrcid''"

fun REQUIRED :: "cls \<Rightarrow> string list" where
  "REQUIRED DataSet = [''dsinname'']"
| "REQUIRED Image = [''ds_id'', ''tau_time'', ''freq_eff'', ''freq_bw'', ''taustart_ts'']"
| "REQUIRED ExtractedSource =
     [''image_id'', ''zone'', ''ra'', ''decl'', ''ra_err'', ''decl_err'', ''x'', ''y'', ''z'',
      ''det_sigma'']"

subsection \<open>The database\<close>

text \<open>
  The database itself and the helpers of \<^verbatim>\<open>tkp/database/utils.py\<close> (imported as
  \<^verbatim>\<open>dbu\<close>) are not part of the sources at hand. A table is the list of its rows in
  insertion order, each with its identity; \<open>columns\<close> gives the known columns of each
  table; the running catalog carries the two variability indices of each entry.
\<close>

record runcat =
  runcatid :: nat
  rc_dataset :: nat
  V_index :: real
  eta_index :: real

record dbstate =
  columns :: "string \<Rightarrow> string list"
  tables :: "string \<Rightarrow> (nat \<times> pydict) list"
  runningcatalog :: "runcat list"

datatype dbconn = DataBase

text \<open>
  Modelled from the spec: the identity given to a new row (absent: the database engine).
  "Once assigned, an entity's persisted identity never changes and is never reused": the
  new identity is above every identity of the table.
\<close>

definition new_id :: "(nat \<times> pydict) list \<Rightarrow> nat" where
  "new_id tbl = Suc (fold max (map fst tbl) 0)"

definition add_row :: "dbstate \<Rightarrow> string \<Rightarrow> pydict \<Rightarrow> dbstate \<times> nat" where
  "add_row d t row =
     (let i = new_id (tables d t)
      in (d\<lparr>tables := (tables d)(t := tables d t @ [(i, row)])\<rparr>, i))"

text \<open>
  Modelled from the spec: the \<^verbatim>\<open>INSERT\<close> statement that \<^verbatim>\<open>DBObject.id\<close> hands to
  \<^verbatim>\<open>cursor.execute\<close> (absent: the cursor). "\<^verbatim>\<open>create(attributes)\<close> inserts a new row
  [...] returns the newly assigned identity", and what is read back is the attributes
  "restricted to persisted columns".
\<close>

definition insert_row :: "dbstate \<Rightarrow> string \<Rightarrow> string \<Rightarrow> pydict \<Rightarrow> dbstate \<times> nat" where
  "insert_row d t idcol data =
     add_row d t ((data |` set (columns d t))(idcol \<mapsto> IntV (int (new_id (tables d t)))))"

text \<open>
  Modelled from the spec: \<^verbatim>\<open>dbu.insert_dataset(conn, dsinname)\<close> (absent).
  "\<^verbatim>\<open>create(name)\<close>: new Dataset".
\<close>

definition insert_dataset :: "dbstate \<Rightarrow> val \<Rightarrow> dbstate \<times> nat" where
  "insert_dataset d dsinname =
     add_row d ''datasets''
       [''dsid'' \<mapsto> IntV (int (new_id (tables d ''datasets''))), ''dsinname'' \<mapsto> dsinname]"

text \<open>
  Modelled from the spec: \<^verbatim>\<open>dbu.insert_image(conn, dsid, freq_eff, freq_bw, taustart_ts, url)\<close>
  (absent). "Inserts row with \<^verbatim>\<open>ds_id\<close> set from \<^verbatim>\<open>dataset\<close>'s identity".
\<close>

definition insert_image :: "dbstate \<Rightarrow> val \<Rightarrow> val \<Rightarrow> val \<Rightarrow> val \<Rightarrow> val \<Rightarrow> dbstate \<times> nat" where
  "insert_image d dsid freq_eff freq_bw taustart_ts url =
     add_row d ''images''
       [''imageid'' \<mapsto> IntV (int (new_id (tables d ''images''))),
        ''ds_id'' \<mapsto> dsid,
        ''freq_eff'' \<mapsto> freq_eff,
        ''freq_bw'' \<mapsto> freq_bw,
        ''taustart_ts'' \<mapsto> taustart_ts,
        ''url'' \<mapsto> url]"

text \<open>
  Modelled from the spec: \<^verbatim>\<open>dbu.columns_from_table(conn, table, keywords=None, where={ID: id})\<close>
  (absent). "\<^verbatim>\<open>load(identity)\<close> reads all columns for that identity": the rows of the
  table with that identity, none when the identity is \<^verbatim>\<open>None\<close>.
\<close>

definition columns_from_table :: "dbstate \<Rightarrow> string \<Rightarrow> nat option \<Rightarrow> pydict list" where
  "columns_from_table d t ident = map snd (filter (\<lambda>p. Some (fst p) = ident) (tables d t))"

text \<open>
  Modelled from the spec: \<^verbatim>\<open>dbu.set_columns_for_table(conn, table, data=kwargs, where={ID: id})\<close>
  (absent). "\<^verbatim>\<open>apply(attributes)\<close> writes the given attributes to the row (ignoring
  attributes not matching a known column, which fails silently)".
\<close>

definition set_columns_for_table :: "dbstate \<Rightarrow> string \<Rightarrow> pydict \<Rightarrow> nat option \<Rightarrow> dbstate" where
  "set_columns_for_table d t data ident =
     d\<lparr>tables := (tables d)(t :=
         map (\<lambda>p. if Some (fst p) = ident then (fst p, snd p ++ (data |` set (columns d t))) else p)
           (tables d t))\<rparr>"

text \<open>
  Modelled from the spec: \<^verbatim>\<open>dbu.detect_variable_sources(conn, dsid, V_lim, eta_lim)\<close>
  (absent). "Returns the set of RunningCatalogEntries in this Dataset whose variability
  index exceeds both thresholds. Purely a derived query; no mutation."
\<close>

definition detect_variable_sources :: "dbstate \<Rightarrow> nat option \<Rightarrow> real \<Rightarrow> real \<Rightarrow> runcat list" where
  "detect_variable_sources d dsid V_lim eta_lim =
     filter (\<lambda>e. Some (rc_dataset e) = dsid \<and> V_lim < V_index e \<and> eta_lim < eta_index e)
       (runningcatalog d)"

subsection \<open>Objects and the store\<close>

text \<open>
  The attributes an instance of the three classes can have: \<^verbatim>\<open>_id\<close>, \<^verbatim>\<open>_data\<close> and
  \<^verbatim>\<open>database\<close> (all), \<^verbatim>\<open>images\<close> (DataSet), \<^verbatim>\<open>dataset\<close> and \<^verbatim>\<open>sources\<close>
  (Image), \<^verbatim>\<open>image\<close> (ExtractedSource). References are addresses of the store.
  \<^verbatim>\<open>Image.__init__\<close> sets \<^verbatim>\<open>self.sources\<close> only after statements that can raise, so an
  Image can be without that attribute: \<open>self_sources\<close> is \<open>None\<close> then. Every other
  attribute is set before anything can raise.
\<close>

record pyobj =
  self_class :: cls
  self_id :: "nat option"
  self_data :: pydict
  self_database :: "dbconn option"
  self_dataset :: "nat option"
  self_image :: "nat option"
  self_images :: "nat set"
  self_sources :: "nat set option"

record world =
  db :: dbstate
  heap :: "nat \<Rightarrow> pyobj"
  next_ref :: nat

type_synonym 'a result = "(error + 'a) \<times> world"

definition put :: "world \<Rightarrow> nat \<Rightarrow> pyobj \<Rightarrow> world" where
  "put w r obj = w\<lparr>heap := (heap w)(r := obj)\<rparr>"

definition alloc :: "world \<Rightarrow> pyobj \<Rightarrow> world" where
  "alloc w obj = w\<lparr>heap := (heap w)(next_ref w := obj), next_ref := Suc (next_ref w)\<rparr>"

subsection \<open>DBObject\<close>

text \<open>\<^verbatim>\<open>DBObject.__init__\<close>: \<^verbatim>\<open>self._data = {} if data is None else data.copy()\<close>.\<close>

definition DBObject_init :: "cls \<Rightarrow> pydict option \<Rightarrow> dbconn option \<Rightarrow> nat option \<Rightarrow> pyobj" where
  "DBObject_init c data database ident =
     \<lparr>self_class = c, self_id = ident,
      self_data = (case data of None \<Rightarrow> Map.empty | Some d \<Rightarrow> d),
      self_database = database, self_dataset = None, self_image = None,
      self_images = {}, self_sources = None\<rparr>"

text \<open>
  The method \<^verbatim>\<open>DBObject.__getattr__\<close>. Python calls it only for a name that the normal
  lookup has not found, or whose property has raised \<^verbatim>\<open>AttributeError\<close>; it consults
  the snapshot and nothing else. Attribute access as a whole is \<open>attribute\<close> below.
\<close>

definition getattr :: "pyobj \<Rightarrow> string \<Rightarrow> error + val" where
  "getattr self name =
     (case self_data self name of
        Some v \<Rightarrow> Inr v
      | None \<Rightarrow> Inl (AttributeNotFound name))"

text \<open>
  Reading \<^verbatim>\<open>obj.id\<close>, where \<^verbatim>\<open>id\<close> is a property: \<open>res\<close> is what the function of
  the property did. When that function raises \<^verbatim>\<open>AttributeError\<close>, Python's lookup
  goes on to \<^verbatim>\<open>__getattr__('id')\<close>, so the access evaluates to \<^verbatim>\<open>self._data['id']\<close>
  when the snapshot has that key; any other exception leaves the access as it is.
\<close>

definition property_access :: "nat \<Rightarrow> nat result \<Rightarrow> val result" where
  "property_access r res =
     (case res of
        (Inr i, w) \<Rightarrow> (Inr (IntV (int i)), w)
      | (Inl e, w) \<Rightarrow>
          if is_AttributeError e then (getattr (heap w r) ''id'', w) else (Inl e, w))"

text \<open>
  The function of the property \<^verbatim>\<open>DataSet.id\<close>. The arguments of \<^verbatim>\<open>dbu.insert_dataset\<close>
  are evaluated first: \<^verbatim>\<open>self.database.connection\<close>, then \<^verbatim>\<open>self._data['dsinname']\<close>.
\<close>

definition DataSet_id_getter :: "world \<Rightarrow> nat \<Rightarrow> nat result" where
  "DataSet_id_getter w r =
     (let self = heap w r in
      case self_id self of
        Some i \<Rightarrow> (Inr i, w)
      | None \<Rightarrow>
         (case self_database self of
            None \<Rightarrow> (Inl (NoneAttribute ''connection''), w)
          | Some _ \<Rightarrow>
             (case self_data self ''dsinname'' of
                None \<Rightarrow> (Inl (KeyError ''dsinname''), w)
              | Some dsinname \<Rightarrow>
                 (let (d, i) = insert_dataset (db w) dsinname
                  in (Inr i, put (w\<lparr>db := d\<rparr>) r (self\<lparr>self_id := Some i\<rparr>))))))"

text \<open>\<^verbatim>\<open>ds.id\<close> for a \<^verbatim>\<open>DataSet\<close>.\<close>

definition DataSet_id :: "world \<Rightarrow> nat \<Rightarrow> val result" where
  "DataSet_id w r = property_access r (DataSet_id_getter w r)"

text \<open>
  The function of the property \<^verbatim>\<open>Image.id\<close>. \<^verbatim>\<open>self.dataset\<close> is a \<^verbatim>\<open>DataSet\<close>, so
  \<^verbatim>\<open>self.dataset.id\<close> is the access above (and the \<^verbatim>\<open>AttributeError\<close> of \<^verbatim>\<open>None.id\<close>
  when there is no dataset); the four keys are read in the order of the call.
\<close>

definition Image_id_getter :: "world \<Rightarrow> nat \<Rightarrow> nat result" where
  "Image_id_getter w r =
     (case self_id (heap w r) of
        Some i \<Rightarrow> (Inr i, w)
      | None \<Rightarrow>
         (case self_database (heap w r) of
            None \<Rightarrow> (Inl (NoneAttribute ''connection''), w)
          | Some _ \<Rightarrow>
             (case self_dataset (heap w r) of
                None \<Rightarrow> (Inl (NoneAttribute ''id''), w)
              | Some ds \<Rightarrow>
                 (case DataSet_id w ds of
                    (Inl e, w1) \<Rightarrow> (Inl e, w1)
                  | (Inr dsid, w1) \<Rightarrow>
                     (let self = heap w1 r in
                      case self_data self ''freq_eff'' of
                        None \<Rightarrow> (Inl (KeyError ''freq_eff''), w1)
                      | Some freq_eff \<Rightarrow>
                      (case self_data self ''freq_bw'' of
                        None \<Rightarrow> (Inl (KeyError ''freq_bw''), w1)
                      | Some freq_bw \<Rightarrow>
                      (case self_data self ''taustart_ts'' of
                        None \<Rightarrow> (Inl (KeyError ''taustart_ts''), w1)
                      | Some taustart_ts \<Rightarrow>
                      (case self_data self ''url'' of
                        None \<Rightarrow> (Inl (KeyError ''url''), w1)
                      | Some url \<Rightarrow>
                         (let (d, i) = insert_image (db w1) dsid freq_eff freq_bw taustart_ts url
                          in (Inr i, put (w1\<lparr>db := d\<rparr>) r (self\<lparr>self_id := Some i\<rparr>)))))))))))"

text \<open>\<^verbatim>\<open>im.id\<close> for an \<^verbatim>\<open>Image\<close>.\<close>

definition Image_id :: "world \<Rightarrow> nat \<Rightarrow> val result" where
  "Image_id w r = property_access r (Image_id_getter w r)"

text \<open>
  The function of the property \<^verbatim>\<open>DBObject.id\<close>, which \<^verbatim>\<open>ExtractedSource\<close> inherits: a
  generic \<^verbatim>\<open>INSERT\<close> of all of \<^verbatim>\<open>self._data\<close>; \<^verbatim>\<open>self.database.cursor\<close> is read before
  the statement runs.
\<close>

definition DBObject_id_getter :: "world \<Rightarrow> nat \<Rightarrow> nat result" where
  "DBObject_id_getter w r =
     (let self = heap w r in
      case self_id self of
        Some i \<Rightarrow> (Inr i, w)
      | None \<Rightarrow>
         (case self_database self of
            None \<Rightarrow> (Inl (NoneAttribute ''cursor''), w)
          | Some _ \<Rightarrow>
             (let c = self_class self;
                  (d, i) = insert_row (db w) (TABLE c) (ID c) (self_data self)
              in (Inr i, put (w\<lparr>db := d\<rparr>) r (self\<lparr>self_id := Some i\<rparr>)))))"

text \<open>\<^verbatim>\<open>obj.id\<close> for an object that inherits the property of \<^verbatim>\<open>DBObject\<close>.\<close>

definition DBObject_id :: "world \<Rightarrow> nat \<Rightarrow> val result" where
  "DBObject_id w r = property_access r (DBObject_id_getter w r)"

text \<open>\<^verbatim>\<open>self.id\<close>, resolved by the class of the object.\<close>

definition get_id :: "world \<Rightarrow> nat \<Rightarrow> val result" where
  "get_id w r =
     (case self_class (heap w r) of
        DataSet \<Rightarrow> DataSet_id w r
      | Image \<Rightarrow> Image_id w r
      | ExtractedSource \<Rightarrow> DBObject_id w r)"

text \<open>\<^verbatim>\<open>DBObject._sync_with_database\<close>: \<^verbatim>\<open>self._data = results[0].copy()\<close>.\<close>

definition sync_with_database :: "world \<Rightarrow> nat \<Rightarrow> unit result" where
  "sync_with_database w r =
     (let self = heap w r in
      case self_database self of
        None \<Rightarrow> (Inl (NoneAttribute ''connection''), w)
      | Some _ \<Rightarrow>
         (case columns_from_table (db w) (TABLE (self_class self)) (self_id self) of
            [] \<Rightarrow> (Inl IndexError, w)
          | row # _ \<Rightarrow> (Inr (), put w r (self\<lparr>self_data := row\<rparr>))))"

text \<open>
  \<^verbatim>\<open>DBObject._set_data(**kwargs)\<close>: the keyword arguments are the list of their
  (name, value) pairs, and \<open>map_of kwargs\<close> is the dictionary they form. Nothing happens
  for empty \<^verbatim>\<open>kwargs\<close>; otherwise the row is written and \<^verbatim>\<open>self._data.update(kwargs)\<close>
  merges every supplied pair into the snapshot.
\<close>

definition set_data :: "world \<Rightarrow> nat \<Rightarrow> (string \<times> val) list \<Rightarrow> unit result" where
  "set_data w r kwargs =
     (let self = heap w r in
      if kwargs = [] then (Inr (), w)
      else
        (case self_database self of
           None \<Rightarrow> (Inl (NoneAttribute ''connection''), w)
         | Some _ \<Rightarrow>
            (Inr (),
             put (w\<lparr>db := set_columns_for_table (db w) (TABLE (self_class self)) (map_of kwargs)
                            (self_id self)\<rparr>)
               r (self\<lparr>self_data := self_data self ++ map_of kwargs\<rparr>))))"

text \<open>\<^verbatim>\<open>DBObject.update\<close>: \<^verbatim>\<open>self._sync_with_database(); self._set_data(**kwargs)\<close>.\<close>

definition update :: "world \<Rightarrow> nat \<Rightarrow> (string \<times> val) list \<Rightarrow> unit result" where
  "update w r kwargs =
     (case sync_with_database w r of
        (Inl e, w1) \<Rightarrow> (Inl e, w1)
      | (Inr _, w1) \<Rightarrow> set_data w1 r kwargs)"

text \<open>
  \<^verbatim>\<open>DBObject._init_data\<close>: with an identity the object is loaded by \<^verbatim>\<open>self.update()\<close>;
  without one the first key of \<^verbatim>\<open>REQUIRED\<close> missing from \<^verbatim>\<open>self._data\<close> is reported,
  and when none is missing \<^verbatim>\<open>self.id\<close> is evaluated.
\<close>

definition init_data :: "world \<Rightarrow> nat \<Rightarrow> unit result" where
  "init_data w r =
     (let self = heap w r in
      case self_id self of
        Some _ \<Rightarrow> update w r []
      | None \<Rightarrow>
         (case find (\<lambda>key. self_data self key = None) (REQUIRED (self_class self)) of
            Some key \<Rightarrow> (Inl (MissingRequired key), w)
          | None \<Rightarrow>
             (case get_id w r of
                (Inl e, w1) \<Rightarrow> (Inl e, w1)
              | (Inr _, w1) \<Rightarrow> (Inr (), w1))))"

text \<open>
  The end of each \<^verbatim>\<open>__init__\<close>:
  \<^verbatim>\<open>if not self.database: raise ValueError(...)\<close>, then \<^verbatim>\<open>self._init_data()\<close>.
  The constructor call evaluates to the new object.
\<close>

definition finish_init :: "world \<Rightarrow> nat \<Rightarrow> nat result" where
  "finish_init w r =
     (case self_database (heap w r) of
        None \<Rightarrow> (Inl ValueError, w)
      | Some _ \<Rightarrow>
         (case init_data w r of
            (Inl e, w1) \<Rightarrow> (Inl e, w1)
          | (Inr _, w1) \<Rightarrow> (Inr r, w1)))"

text \<open>\<^verbatim>\<open>self._data.setdefault(key, v)\<close>.\<close>

definition setdefault :: "pydict \<Rightarrow> string \<Rightarrow> val \<Rightarrow> pydict" where
  "setdefault data key v = (case data key of None \<Rightarrow> data(key \<mapsto> v) | Some _ \<Rightarrow> data)"

text \<open>
  \<^verbatim>\<open>if owner.database and not self.database: self.database = owner.database\<close>,
  where \<open>owner\<close> is the object at \<open>ow\<close>.
\<close>

definition inherit_database :: "world \<Rightarrow> nat \<Rightarrow> nat \<Rightarrow> world" where
  "inherit_database w r ow =
     (if self_database (heap w ow) \<noteq> None \<and> self_database (heap w r) = None
      then put w r ((heap w r)\<lparr>self_database := self_database (heap w ow)\<rparr>)
      else w)"

subsection \<open>DataSet, Image, ExtractedSource\<close>

text \<open>\<^verbatim>\<open>DataSet.__init__(data, database, id)\<close>; the new object is at \<open>next_ref w\<close>.\<close>

definition DataSet_init :: "world \<Rightarrow> pydict option \<Rightarrow> dbconn option \<Rightarrow> nat option \<Rightarrow> nat result" where
  "DataSet_init w data database ident =
     finish_init (alloc w (DBObject_init DataSet data database ident)) (next_ref w)"

text \<open>\<^verbatim>\<open>self.sources = set()\<close>.\<close>

definition set_sources :: "world \<Rightarrow> nat \<Rightarrow> world" where
  "set_sources w r = put w r ((heap w r)\<lparr>self_sources := Some {}\<rparr>)"

text \<open>
  \<^verbatim>\<open>Image.__init__(data, dataset, database, id)\<close>. \<^verbatim>\<open>self.dataset.id\<close> is evaluated
  before \<^verbatim>\<open>setdefault\<close> is called, whether or not \<^verbatim>\<open>'ds_id'\<close> is in the data;
  \<^verbatim>\<open>self.sources\<close> is set after that.
\<close>

definition Image_init ::
  "world \<Rightarrow> pydict option \<Rightarrow> nat option \<Rightarrow> dbconn option \<Rightarrow> nat option \<Rightarrow> nat result" where
  "Image_init w data dataset database ident =
     (let r = next_ref w;
          w1 = alloc w ((DBObject_init Image data database ident)\<lparr>self_dataset := dataset\<rparr>)
      in case dataset of
           None \<Rightarrow> finish_init (set_sources w1 r) r
         | Some ds \<Rightarrow>
            (let w2 = inherit_database w1 r ds;
                 w3 = put w2 ds ((heap w2 ds)\<lparr>self_images := insert r (self_images (heap w2 ds))\<rparr>)
             in case DataSet_id w3 ds of
                  (Inl e, w4) \<Rightarrow> (Inl e, w4)
                | (Inr dsid, w4) \<Rightarrow>
                   finish_init
                     (set_sources
                        (put w4 r ((heap w4 r)\<lparr>self_data :=
                           setdefault (self_data (heap w4 r)) ''ds_id'' dsid\<rparr>))
                        r)
                     r))"

text \<open>
  \<^verbatim>\<open>ExtractedSource.__init__(data, image, database, id)\<close> (the argument \<^verbatim>\<open>image\<close> is
  \<open>img\<close> here). The database is looked for in \<^verbatim>\<open>self.image.dataset.database\<close>, which
  fails when the image has no dataset. \<^verbatim>\<open>self.image.sources\<close> is the set of the image;
  for an image without that attribute the access goes on to \<^verbatim>\<open>__getattr__\<close>, and a value
  of the snapshot has no \<^verbatim>\<open>add\<close>.
\<close>

definition ExtractedSource_init ::
  "world \<Rightarrow> pydict option \<Rightarrow> nat option \<Rightarrow> dbconn option \<Rightarrow> nat option \<Rightarrow> nat result" where
  "ExtractedSource_init w data img database ident =
     (let r = next_ref w;
          w1 = alloc w ((DBObject_init ExtractedSource data database ident)\<lparr>self_image := img\<rparr>)
      in case img of
           None \<Rightarrow> finish_init w1 r
         | Some im \<Rightarrow>
            (case self_dataset (heap w1 im) of
               None \<Rightarrow> (Inl (NoneAttribute ''database''), w1)
             | Some ds \<Rightarrow>
                (let w2 = inherit_database w1 r ds in
                 case self_sources (heap w2 im) of
                   None \<Rightarrow>
                     (case getattr (heap w2 im) ''sources'' of
                        Inl e \<Rightarrow> (Inl e, w2)
                      | Inr _ \<Rightarrow> (Inl (NoneAttribute ''add''), w2))
                 | Some srcs \<Rightarrow>
                    (let w3 = put w2 im ((heap w2 im)\<lparr>self_sources := Some (insert r srcs)\<rparr>)
                     in case Image_id w3 im of
                          (Inl e, w4) \<Rightarrow> (Inl e, w4)
                        | (Inr imageid, w4) \<Rightarrow>
                           finish_init
                             (put w4 r ((heap w4 r)\<lparr>self_data :=
                                setdefault (self_data (heap w4 r)) ''image_id'' imageid\<rparr>))
                             r))))"

text \<open>
  \<^verbatim>\<open>DataSet.detect_variables(V_lim=0.2, eta_lim=3.)\<close>: an argument left out takes its
  default.
\<close>

definition detect_variables ::
  "world \<Rightarrow> nat \<Rightarrow> real option \<Rightarrow> real option \<Rightarrow> (runcat list) result" where
  "detect_variables w r V_lim eta_lim =
     (case self_database (heap w r) of
        None \<Rightarrow> (Inl (NoneAttribute ''connection''), w)
      | Some _ \<Rightarrow>
         (Inr (detect_variable_sources (db w) (self_id (heap w r))
                 (case V_lim of None \<Rightarrow> 2 / 10 | Some v \<Rightarrow> v)
                 (case eta_lim of None \<Rightarrow> 3 | Some e \<Rightarrow> e)),
          w))"

subsection \<open>Attribute access\<close>





subsection \<open>Notions used in the statements\<close>

text \<open>
  Creating an entity fresh is calling its constructor with data and without an
  identity; \<open>owner\<close> is the \<^verbatim>\<open>dataset\<close> argument of an Image and the \<^verbatim>\<open>image\<close>
  argument of an ExtractedSource (a DataSet has none).
\<close>

definition create :: "cls \<Rightarrow> world \<Rightarrow> pydict \<Rightarrow> nat option \<Rightarrow> dbconn option \<Rightarrow> nat result" where
  "create c w data owner database =
     (case c of
        DataSet \<Rightarrow> DataSet_init w (Some data) database None
      | Image \<Rightarrow> Image_init w (Some data) owner database None
      | ExtractedSource \<Rightarrow> ExtractedSource_init w (Some data) owner database None)"

text \<open>
  Loading by identity, as in the module's docstring:
  \<^verbatim>\<open>DataSet(id=dataset.id, database=database)\<close>.
\<close>

definition load :: "cls \<Rightarrow> world \<Rightarrow> nat \<Rightarrow> nat result" where
  "load c w i =
     (case c of
        DataSet \<Rightarrow> DataSet_init w None (Some DataBase) (Some i)
      | Image \<Rightarrow> Image_init w None None (Some DataBase) (Some i)
      | ExtractedSource \<Rightarrow> ExtractedSource_init w None None (Some DataBase) (Some i))"

text \<open>
  An owner that is given is an object of the store that holds its identity; the image
  given to an ExtractedSource moreover has its \<^verbatim>\<open>sources\<close> set and has a dataset (which
  is where the constructor looks for the database). An Image can lack each of these: its
  constructor can return without having assigned an identity (when \<^verbatim>\<open>id\<close> is a key of
  the data and no dataset is given), and an Image loaded by its identity has no dataset.
\<close>

definition owner_identified :: "cls \<Rightarrow> world \<Rightarrow> nat option \<Rightarrow> bool" where
  "owner_identified c w owner =
     (case owner of
        None \<Rightarrow> True
      | Some ow \<Rightarrow>
          c \<noteq> DataSet \<and> ow < next_ref w \<and> self_id (heap w ow) \<noteq> None \<and>
          (c = ExtractedSource \<longrightarrow>
             self_sources (heap w ow) \<noteq> None \<and>
             (case self_dataset (heap w ow) of None \<Rightarrow> False | Some ds \<Rightarrow> ds < next_ref w)))"

text \<open>
  A database is given directly, or is found where the constructor looks for one: in the
  dataset of an Image, in the dataset of the image of an ExtractedSource.
\<close>

definition database_available :: "cls \<Rightarrow> world \<Rightarrow> nat option \<Rightarrow> dbconn option \<Rightarrow> bool" where
  "database_available c w owner database =
     (database \<noteq> None \<or>
      (case owner of
         None \<Rightarrow> False
       | Some ow \<Rightarrow>
          (case c of
             DataSet \<Rightarrow> False
           | Image \<Rightarrow> self_database (heap w ow) \<noteq> None
           | ExtractedSource \<Rightarrow>
              (case self_dataset (heap w ow) of
                 None \<Rightarrow> False
               | Some ds \<Rightarrow> self_database (heap w ds) \<noteq> None))))"

text \<open>
  The attribute map as \<^verbatim>\<open>_init_data\<close> sees it: the constructor has put the owner's
  identity under \<^verbatim>\<open>ds_id\<close> (Image) or \<^verbatim>\<open>image_id\<close> (ExtractedSource) unless the
  key was supplied.
\<close>

definition with_owner_id :: "cls \<Rightarrow> world \<Rightarrow> pydict \<Rightarrow> nat option \<Rightarrow> pydict" where
  "with_owner_id c w data owner =
     (case owner of
        None \<Rightarrow> data
      | Some ow \<Rightarrow>
         (case self_id (heap w ow) of
            None \<Rightarrow> data
          | Some i \<Rightarrow>
             (case c of
                DataSet \<Rightarrow> data
              | Image \<Rightarrow> setdefault data ''ds_id'' (IntV (int i))
              | ExtractedSource \<Rightarrow> setdefault data ''image_id'' (IntV (int i)))))"

text \<open>
  The columns whose value the insert of each class takes from the attribute map:
  \<^verbatim>\<open>DataSet.id\<close> passes \<^verbatim>\<open>self._data['dsinname']\<close> only, \<^verbatim>\<open>Image.id\<close> passes the four
  keys below (and the identity of \<^verbatim>\<open>self.dataset\<close>, not \<^verbatim>\<open>self._data['ds_id']\<close>),
  \<^verbatim>\<open>DBObject.id\<close> passes all of \<^verbatim>\<open>self._data\<close>.
\<close>

fun copied_columns :: "cls \<Rightarrow> dbstate \<Rightarrow> string list" where
  "copied_columns DataSet d = [''dsinname'']"
| "copied_columns Image d = [''freq_eff'', ''freq_bw'', ''taustart_ts'', ''url'']"
| "copied_columns ExtractedSource d =
     filter (\<lambda>k. k \<noteq> ''xtrsrcid'') (columns d ''extractedsources'')"

text \<open>
  An object without identity on which the function of the \<^verbatim>\<open>id\<close> property finds all
  it reads: a database; for a DataSet the key \<^verbatim>\<open>dsinname\<close>; for an Image a dataset
  that holds its identity, and the four keys of the call.
\<close>

definition id_insertable :: "world \<Rightarrow> nat \<Rightarrow> bool" where
  "id_insertable w r =
     (let self = heap w r in
      self_id self = None \<and> self_database self \<noteq> None \<and>
      (case self_class self of
         DataSet \<Rightarrow> self_data self ''dsinname'' \<noteq> None
       | Image \<Rightarrow>
           (case self_dataset self of
              None \<Rightarrow> False
            | Some ds \<Rightarrow> self_id (heap w ds) \<noteq> None) \<and>
           self_data self ''freq_eff'' \<noteq> None \<and> self_data self ''freq_bw'' \<noteq> None \<and>
           self_data self ''taustart_ts'' \<noteq> None \<and> self_data self ''url'' \<noteq> None
       | ExtractedSource \<Rightarrow> True))"

text \<open>
  A failed call has left the database as it was, and no object has got an identity:
  the new object, at \<open>next_ref w\<close>, holds the \<open>ident\<close> its constructor was given.
\<close>

definition untouched :: "world \<Rightarrow> world \<Rightarrow> nat option \<Rightarrow> bool" where
  "untouched w w' ident \<longleftrightarrow>
     db w' = db w \<and>
     (\<forall>x. self_id (heap w' x) = (if x = next_ref w then ident else self_id (heap w x)))"

subsection \<open>A small database and some objects\<close>

text \<open>
  A database with three tables, one dataset row and two running-catalog entries, and a
  \<^verbatim>\<open>DataSet\<close> object for that row whose snapshot holds an edit that was never saved.
\<close>

definition example_db :: dbstate where
  "example_db =
     \<lparr>columns = (\<lambda>t. if t = ''datasets'' then [''dsid'', ''dsinname'']
                      else if t = ''images''
                      then [''imageid'', ''ds_id'', ''tau_time'', ''freq_eff'', ''freq_bw'',
                            ''taustart_ts'', ''url'']
                      else if t = ''extractedsources''
                      then [''xtrsrcid'', ''image_id'', ''zone'', ''ra'', ''decl'', ''ra_err'',
                            ''decl_err'', ''x'', ''y'', ''z'', ''det_sigma'']
                      else []),
      tables = (\<lambda>t. if t = ''datasets''
                     then [(1, [''dsid'' \<mapsto> IntV 1, ''dsinname'' \<mapsto> StrV ''a dataset''])]
                     else []),
      runningcatalog =
        [\<lparr>runcatid = 1, rc_dataset = 1, V_index = 5 / 10, eta_index = 10\<rparr>,
         \<lparr>runcatid = 2, rc_dataset = 1, V_index = 1 / 10, eta_index = 1\<rparr>]\<rparr>"

definition example_dataset :: pyobj where
  "example_dataset =
     \<lparr>self_class = DataSet, self_id = Some 1,
      self_data = [''dsinname'' \<mapsto> StrV ''unsaved edit''],
      self_database = Some DataBase, self_dataset = None, self_image = None,
      self_images = {}, self_sources = None\<rparr>"

definition example_world :: world where
  "example_world = \<lparr>db = example_db, heap = (\<lambda>r. example_dataset), next_ref = 1\<rparr>"

text \<open>
  The data of the first image of the module's docstring (numbers written as integers).
\<close>

definition example_image_data :: pydict where
  "example_image_data =
     [''tau_time'' \<mapsto> IntV 1800, ''freq_eff'' \<mapsto> IntV 80000000, ''freq_bw'' \<mapsto> IntV 1000000,
      ''taustart_ts'' \<mapsto> StrV ''2011-05-01 00:00:00'', ''url'' \<mapsto> StrV ''/'']"

text \<open>
  Objects without identity, one of each class, and a store that holds them at 1, 2
  and 3; the Image belongs to the example dataset.
\<close>

definition example_fresh_image :: pyobj where
  "example_fresh_image =
     (DBObject_init Image (Some (example_image_data(''ds_id'' \<mapsto> IntV 1))) (Some DataBase) None)
       \<lparr>self_dataset := Some 0, self_sources := Some {}\<rparr>"

definition example_fresh_dataset :: pyobj where
  "example_fresh_dataset =
     DBObject_init DataSet (Some [''dsinname'' \<mapsto> StrV ''another dataset'']) (Some DataBase) None"

definition example_fresh_source :: pyobj where
  "example_fresh_source =
     DBObject_init ExtractedSource (Some [''image_id'' \<mapsto> IntV 1, ''zone'' \<mapsto> IntV 3])
       (Some DataBase) None"

definition fresh_world :: world where
  "fresh_world =
     alloc (alloc (alloc example_world example_fresh_image) example_fresh_dataset)
       example_fresh_source"

text \<open>
  A store in which the Image (at 2) belongs to a dataset (at 1) that has no identity
  yet.
\<close>

definition lazy_world :: world where
  "lazy_world =
     alloc (alloc example_world example_fresh_dataset)
       (example_fresh_image\<lparr>self_dataset := Some 1\<rparr>)"

text \<open>
  A store whose dataset (at 0) and image (at 1) hold no database.
\<close>

definition orphan_world :: world where
  "orphan_world =
     \<lparr>db = example_db,
      heap = (\<lambda>r. if r = 1
                  then \<lparr>self_class = Image, self_id = Some 1, self_data = Map.empty,
                        self_database = None, self_dataset = Some 0, self_image = None,
                        self_images = {}, self_sources = Some {}\<rparr>
                  else example_dataset\<lparr>self_database := None\<rparr>),
      next_ref = 2\<rparr>"

text \<open>
  The store after an Image was created for the example dataset with \<^verbatim>\<open>ds_id\<close> 99 in
  its data.
\<close>

definition created_world :: world where
  "created_world =
     snd (create Image example_world (example_image_data(''ds_id'' \<mapsto> IntV 99)) (Some 0) None)"

text \<open>
  The store after \<^verbatim>\<open>Image(data=..., database=db)\<close>, without a dataset, where the data
  have all required keys, \<^verbatim>\<open>url\<close> and a key \<^verbatim>\<open>id\<close>.
\<close>

definition unowned_world :: world where
  "unowned_world =
     snd (Image_init example_world
            (Some (example_image_data(''ds_id'' \<mapsto> IntV 1, ''id'' \<mapsto> IntV 5)))
            None (Some DataBase) None)"



section \<open>Properties\<close>

subsection \<open>The store and the examples\<close>

lemma db_put [simp]: "db (put w r obj) = db w"
  by (simp add: put_def)

lemma heap_put [simp]: "heap (put w r obj) x = (if x = r then obj else heap w x)"
  by (simp add: put_def)

lemma next_ref_put [simp]: "next_ref (put w r obj) = next_ref w"
  by (simp add: put_def)

lemma db_alloc [simp]: "db (alloc w obj) = db w"
  by (simp add: alloc_def)

lemma heap_alloc [simp]: "heap (alloc w obj) x = (if x = next_ref w then obj else heap w x)"
  by (simp add: alloc_def)

lemma next_ref_alloc [simp]: "next_ref (alloc w obj) = Suc (next_ref w)"
  by (simp add: alloc_def)

lemma db_set_sources [simp]: "db (set_sources w r) = db w"
  by (simp add: set_sources_def)

lemma heap_set_sources [simp]:
  "heap (set_sources w r) x = (if x = r then (heap w r)\<lparr>self_sources := Some {}\<rparr> else heap w x)"
  by (simp add: set_sources_def)

lemma next_ref_set_sources [simp]: "next_ref (set_sources w r) = next_ref w"
  by (simp add: set_sources_def)

lemma set_sources_alloc:
  "set_sources (alloc w obj) (next_ref w) = alloc w (obj\<lparr>self_sources := Some {}\<rparr>)"
  by (cases w) (simp add: set_sources_def alloc_def put_def)

lemmas example_defs =
  example_world_def example_db_def example_dataset_def example_image_data_def
  example_fresh_image_def example_fresh_dataset_def example_fresh_source_def
  fresh_world_def lazy_world_def orphan_world_def

lemmas method_defs =
  create_def load_def DataSet_init_def Image_init_def ExtractedSource_init_def alloc_def
  DBObject_init_def inherit_database_def put_def set_sources_def finish_init_def init_data_def
  get_id_def DataSet_id_def Image_id_def DBObject_id_def DataSet_id_getter_def
  Image_id_getter_def DBObject_id_getter_def property_access_def getattr_def setdefault_def
  update_def sync_with_database_def set_data_def insert_dataset_def insert_image_def
  insert_row_def add_row_def new_id_def columns_from_table_def Let_def

lemma example_row:
  "columns_from_table (db example_world) (TABLE (self_class (heap example_world 0)))
     (self_id (heap example_world 0))
   = [[''dsid'' \<mapsto> IntV 1, ''dsinname'' \<mapsto> StrV ''a dataset'']]"
  by (simp add: example_world_def example_db_def example_dataset_def columns_from_table_def)

lemma example_id: "self_id (heap example_world 0) = Some 1"
  by (simp add: example_world_def example_dataset_def)

lemma example_database: "self_database (heap example_world 0) \<noteq> None"
  by (simp add: example_world_def example_dataset_def)

lemma example_owner:
  "owner_identified Image example_world (Some 0)"
  "database_available Image example_world (Some 0) None"
  by (simp_all add: owner_identified_def database_available_def example_defs)

lemma created_world_result:
  "create Image example_world (example_image_data(''ds_id'' \<mapsto> IntV 99)) (Some 0) None
     = (Inr 1, created_world)"
  by (simp add: created_world_def prod_eq_iff) (simp add: example_defs method_defs)

subsection \<open>New identities\<close>

lemma fold_max_ge: "(a::nat) \<le> fold max xs a"
  by (induction xs arbitrary: a) (auto intro: order_trans [OF max.cobounded2])

lemma fold_max_mem: "x \<in> set xs \<Longrightarrow> (x::nat) \<le> fold max xs a"
proof (induction xs arbitrary: a)
  case Nil
  then show ?case by simp
next
  case (Cons y ys)
  show ?case
  proof (cases "x = y")
    case True
    have "y \<le> max y a" by simp
    also have "\<dots> \<le> fold max ys (max y a)" by (rule fold_max_ge)
    finally show ?thesis using True by simp
  next
    case False
    with Cons show ?thesis by simp
  qed
qed

lemma new_id_fresh: "p \<in> set tbl \<Longrightarrow> fst p < new_id tbl"
proof -
  assume "p \<in> set tbl"
  then have "fst p \<in> set (map fst tbl)" by simp
  then have "fst p \<le> fold max (map fst tbl) 0" by (rule fold_max_mem)
  then show ?thesis by (simp add: new_id_def)
qed

lemma new_id_pair: "(new_id tbl, b) \<in> set tbl \<Longrightarrow> False"
  using new_id_fresh [of "(new_id tbl, b)" tbl] by simp

lemma add_row_eq:
  "add_row d t row =
     (d\<lparr>tables := (tables d)(t := tables d t @ [(new_id (tables d t), row)])\<rparr>,
      new_id (tables d t))"
  by (simp add: add_row_def Let_def)

lemma columns_from_table_appended:
  "i \<notin> fst ` set (tables d t) \<Longrightarrow>
   columns_from_table (d\<lparr>tables := (tables d)(t := tables d t @ [(i, row)])\<rparr>) t (Some i) = [row]"
  by (auto simp: columns_from_table_def filter_empty_conv)

subsection \<open>The variability query\<close>

text \<open>
  C9: for a dataset with a database, \<^verbatim>\<open>detect_variables\<close> returns exactly the
  running-catalog entries of that dataset whose two variability indices exceed both
  thresholds, and leaves the database and every object as they were; the thresholds
  default to 0.2 and 3.
\<close>

theorem detect_variables_query:
  assumes "self_database (heap w r) \<noteq> None"
  shows "snd (detect_variables w r V_lim eta_lim) = w \<and>
    (\<exists>res. fst (detect_variables w r V_lim eta_lim) = Inr res \<and>
       set res = {e \<in> set (runningcatalog (db w)).
                    Some (rc_dataset e) = self_id (heap w r) \<and>
                    (case V_lim of None \<Rightarrow> 2 / 10 | Some v \<Rightarrow> v) < V_index e \<and>
                    (case eta_lim of None \<Rightarrow> 3 | Some v \<Rightarrow> v) < eta_index e})"
  using assms by (auto simp: detect_variables_def detect_variable_sources_def)

text \<open>
  The scenario of the specification: of the entries with V = 0.5, \<open>\<eta>\<close> = 10 and
  V = 0.1, \<open>\<eta>\<close> = 1, only the first is returned for the thresholds 0.2 and 3, which are
  the defaults.
\<close>

theorem detect_variables_query_witness:
  "self_database (heap example_world 0) \<noteq> None \<and>
   detect_variables example_world 0 (Some (2 / 10)) (Some 3)
     = (Inr [\<lparr>runcatid = 1, rc_dataset = 1, V_index = 5 / 10, eta_index = 10\<rparr>], example_world) \<and>
   detect_variables example_world 0 None None
     = detect_variables example_world 0 (Some (2 / 10)) (Some 3)"
proof -
  note db = example_database
  have "snd (detect_variables example_world 0 (Some (2 / 10)) (Some 3)) = example_world"
    using detect_variables_query [OF db] by blast
  moreover have "fst (detect_variables example_world 0 (Some (2 / 10)) (Some 3))
      = Inr [\<lparr>runcatid = 1, rc_dataset = 1, V_index = 5 / 10, eta_index = 10\<rparr>]"
    by (simp add: detect_variables_def detect_variable_sources_def example_world_def
        example_db_def example_dataset_def)
  moreover have "detect_variables example_world 0 None None
     = detect_variables example_world 0 (Some (2 / 10)) (Some 3)"
    by (simp add: detect_variables_def split: option.splits)
  ultimately show ?thesis using db by (simp add: prod_eq_iff)
qed

subsection \<open>update\<close>

lemma set_data_empty: "set_data w r [] = (Inr (), w)"
  by (simp add: set_data_def)

lemma update_empty: "update w r [] = sync_with_database w r"
  by (auto simp: update_def set_data_empty split: prod.splits sum.splits)

lemma db_sync [simp]: "db (snd (sync_with_database w r)) = db w"
  by (simp add: sync_with_database_def Let_def split: option.splits list.splits)

lemma heap_sync_other: "x \<noteq> r \<Longrightarrow> heap (snd (sync_with_database w r)) x = heap w x"
  by (simp add: sync_with_database_def Let_def split: option.splits list.splits)

lemma sync_row:
  "self_database (heap w r) \<noteq> None \<Longrightarrow>
   columns_from_table (db w) (TABLE (self_class (heap w r))) (self_id (heap w r)) = row # rest \<Longrightarrow>
   sync_with_database w r = (Inr (), put w r ((heap w r)\<lparr>self_data := row\<rparr>))"
  by (auto simp: sync_with_database_def Let_def)

text \<open>
  C2: for an object with an assigned identity, \<^verbatim>\<open>update()\<close> without keyword arguments
  writes nothing: the database is unchanged and so is every other object; when the
  object has a database and its row exists, the call succeeds and only the snapshot of
  the object is replaced, by the values of the row.
\<close>

theorem update_without_arguments:
  assumes "self_id (heap w r) = Some i"
  shows "db (snd (update w r [])) = db w \<and>
    (\<forall>x. x \<noteq> r \<longrightarrow> heap (snd (update w r [])) x = heap w x) \<and>
    (\<forall>row rest.
       self_database (heap w r) \<noteq> None \<and>
       columns_from_table (db w) (TABLE (self_class (heap w r))) (Some i) = row # rest \<longrightarrow>
       update w r [] = (Inr (), put w r ((heap w r)\<lparr>self_data := row\<rparr>)))"
  using assms by (auto simp: update_empty heap_sync_other intro: sync_row)

theorem update_without_arguments_witness:
  "self_id (heap example_world 0) = Some 1 \<and>
   db (snd (update example_world 0 [])) = db example_world \<and>
   getattr (heap example_world 0) ''dsinname'' = Inr (StrV ''unsaved edit'') \<and>
   getattr (heap (snd (update example_world 0 [])) 0) ''dsinname'' = Inr (StrV ''a dataset'')"
proof -
  note i = example_id and d = example_database
  note u = update_without_arguments [OF i]
  have "update example_world 0 [] =
      (Inr (), put example_world 0
         ((heap example_world 0)\<lparr>self_data := [''dsid'' \<mapsto> IntV 1, ''dsinname'' \<mapsto> StrV ''a dataset'']\<rparr>))"
    using u d example_row i by simp
  moreover have "getattr (heap example_world 0) ''dsinname'' = Inr (StrV ''unsaved edit'')"
    by (simp add: getattr_def example_world_def example_dataset_def)
  ultimately show ?thesis using i u by (simp add: getattr_def)
qed

lemma set_data_result:
  "self_database (heap w r) \<noteq> None \<Longrightarrow>
   set_data w r kwargs =
     (Inr (),
      if kwargs = [] then w
      else put (w\<lparr>db := set_columns_for_table (db w) (TABLE (self_class (heap w r)))
                         (map_of kwargs) (self_id (heap w r))\<rparr>)
             r ((heap w r)\<lparr>self_data := self_data (heap w r) ++ map_of kwargs\<rparr>))"
  by (auto simp: set_data_def Let_def)

text \<open>
  C3: for an object with an assigned identity (and a database, and a row),
  \<^verbatim>\<open>update(**kwargs)\<close> succeeds; the snapshot it leaves is the row as it was before the
  call, overlaid with exactly the supplied attributes, whatever the snapshot held
  before (the object is otherwise unchanged, and so is every other object); the
  database is the one before the call with the supplied attributes written to the row.
\<close>

theorem update_with_arguments:
  assumes "self_id (heap w r) = Some i"
    and "self_database (heap w r) \<noteq> None"
    and "columns_from_table (db w) (TABLE (self_class (heap w r))) (Some i) = row # rest"
  shows "fst (update w r kwargs) = Inr () \<and>
    heap (snd (update w r kwargs)) r = (heap w r)\<lparr>self_data := row ++ map_of kwargs\<rparr> \<and>
    (\<forall>x. x \<noteq> r \<longrightarrow> heap (snd (update w r kwargs)) x = heap w x) \<and>
    db (snd (update w r kwargs)) =
      (if kwargs = [] then db w
       else set_columns_for_table (db w) (TABLE (self_class (heap w r))) (map_of kwargs) (Some i))"
proof -
  have s: "sync_with_database w r = (Inr (), put w r ((heap w r)\<lparr>self_data := row\<rparr>))"
    using assms by (simp add: sync_row)
  show ?thesis
    using assms by (simp add: update_def s set_data_result)
qed

text \<open>
  The unsaved edit of \<^verbatim>\<open>dsinname\<close> is gone after the call, and \<^verbatim>\<open>dsid\<close>, which the
  snapshot did not hold, has come from the row.
\<close>

theorem update_with_arguments_witness:
  "self_id (heap example_world 0) = Some 1 \<and>
   getattr (heap example_world 0) ''dsinname'' = Inr (StrV ''unsaved edit'') \<and>
   getattr (heap example_world 0) ''dsid'' = Inl (AttributeNotFound ''dsid'') \<and>
   getattr (heap (snd (update example_world 0 [(''dsinname'', StrV ''renamed'')])) 0) ''dsinname''
     = Inr (StrV ''renamed'') \<and>
   getattr (heap (snd (update example_world 0 [(''dsinname'', StrV ''renamed'')])) 0) ''dsid''
     = Inr (IntV 1)"
proof -
  have r: "columns_from_table (db example_world) (TABLE (self_class (heap example_world 0))) (Some 1)
      = [''dsid'' \<mapsto> IntV 1, ''dsinname'' \<mapsto> StrV ''a dataset''] # []"
    using example_row example_id by simp
  note u = update_with_arguments [OF example_id example_database r,
      of "[(''dsinname'', StrV ''renamed'')]"]
  have "getattr (heap example_world 0) ''dsinname'' = Inr (StrV ''unsaved edit'')"
    and "getattr (heap example_world 0) ''dsid'' = Inl (AttributeNotFound ''dsid'')"
    by (simp_all add: getattr_def example_world_def example_dataset_def)
  then show ?thesis using u example_id by (simp add: getattr_def)
qed

lemma columns_from_table_set_columns:
  "columns_from_table (set_columns_for_table d t data ident) t ident
     = map (\<lambda>row. row ++ (data |` set (columns d t))) (columns_from_table d t ident)"
proof -
  have "map snd (filter (\<lambda>p. Some (fst p) = ident)
          (map (\<lambda>p. if Some (fst p) = ident then (fst p, snd p ++ m) else p) tbl))
      = map (\<lambda>row. row ++ m) (map snd (filter (\<lambda>p. Some (fst p) = ident) tbl))"
    for tbl :: "(nat \<times> pydict) list" and m
    by (induction tbl) auto
  then show ?thesis
    by (simp add: columns_from_table_def set_columns_for_table_def)
qed

lemma map_add_restrict_empty: "row ++ (Map.empty |` S) = row"
  by (simp add: fun_eq_iff map_add_def restrict_map_def)

text \<open>
  C5, as the code has it: for an object with a database, \<^verbatim>\<open>_set_data(**kwargs)\<close>
  raises no error; the snapshot takes every supplied value, also for a key that matches
  no column of the table, and keeps its other entries; each row of the object takes the
  supplied values of the known columns only and keeps everything else.
\<close>

theorem set_data_supplied:
  assumes "self_database (heap w r) \<noteq> None"
  shows "fst (set_data w r kwargs) = Inr () \<and>
    (\<forall>k. self_data (heap (snd (set_data w r kwargs)) r) k =
       (case map_of kwargs k of Some v \<Rightarrow> Some v | None \<Rightarrow> self_data (heap w r) k)) \<and>
    columns_from_table (db (snd (set_data w r kwargs))) (TABLE (self_class (heap w r)))
        (self_id (heap w r))
      = map (\<lambda>row. row ++ (map_of kwargs |` set (columns (db w) (TABLE (self_class (heap w r))))))
          (columns_from_table (db w) (TABLE (self_class (heap w r))) (self_id (heap w r)))"
proof (cases "kwargs = []")
  case True
  then show ?thesis
    by (simp add: set_data_empty map_add_restrict_empty)
next
  case False
  with assms show ?thesis
    by (simp add: set_data_result columns_from_table_set_columns map_add_def
        split: option.splits)
qed

theorem set_data_supplied_witness:
  "self_database (heap example_world 0) \<noteq> None \<and>
   fst (set_data example_world 0 [(''dsinname'', StrV ''renamed''), (''bogus'', IntV 1)]) = Inr () \<and>
   self_data (heap (snd (set_data example_world 0
      [(''dsinname'', StrV ''renamed''), (''bogus'', IntV 1)])) 0) ''dsinname'' = Some (StrV ''renamed'') \<and>
   self_data (heap (snd (set_data example_world 0
      [(''dsinname'', StrV ''renamed''), (''bogus'', IntV 1)])) 0) ''bogus'' = Some (IntV 1) \<and>
   map (\<lambda>row. (row ''dsid'', row ''dsinname'', row ''bogus''))
     (columns_from_table (db (snd (set_data example_world 0
        [(''dsinname'', StrV ''renamed''), (''bogus'', IntV 1)]))) ''datasets'' (Some 1))
     = [(Some (IntV 1), Some (StrV ''renamed''), None)]"
proof -
  note s = set_data_supplied [OF example_database,
      of "[(''dsinname'', StrV ''renamed''), (''bogus'', IntV 1)]"]
  have t: "TABLE (self_class (heap example_world 0)) = ''datasets''"
    by (simp add: example_defs)
  have c: "columns (db example_world) ''datasets'' = [''dsid'', ''dsinname'']"
    by (simp add: example_defs)
  from s example_database example_row example_id show ?thesis
    by (simp add: t c restrict_map_def map_add_def)
qed

text \<open>
  C5 as stated fails at a keyword that is no column of the table: after
  \<^verbatim>\<open>_set_data(bogus=1)\<close> the row read back has no \<^verbatim>\<open>bogus\<close>, so nothing was written for
  it; yet the snapshot holds \<^verbatim>\<open>bogus\<close>, because \<^verbatim>\<open>self._data.update(kwargs)\<close> takes
  every supplied pair. The snapshot is not updated with exactly the written values.
\<close>

theorem set_data_unknown_key:
  "''bogus'' \<notin> set (columns (db example_world) (TABLE (self_class (heap example_world 0)))) \<and>
   fst (set_data example_world 0 [(''bogus'', IntV 1)]) = Inr () \<and>
   map (\<lambda>row. row ''bogus'')
     (columns_from_table (db (snd (set_data example_world 0 [(''bogus'', IntV 1)]))) ''datasets'' (Some 1))
     = [None] \<and>
   getattr (heap (snd (set_data example_world 0 [(''bogus'', IntV 1)])) 0) ''bogus'' = Inr (IntV 1)"
  by (simp add: set_data_def getattr_def example_world_def example_db_def example_dataset_def
      set_columns_for_table_def columns_from_table_def restrict_map_def put_def)

subsection \<open>The id property\<close>

lemma property_access_Inr [simp]: "property_access r (Inr i, w) = (Inr (IntV (int i)), w)"
  by (simp add: property_access_def)

lemma property_access_Inl [simp]:
  "property_access r (Inl e, w) =
     (if is_AttributeError e then (getattr (heap w r) ''id'', w) else (Inl e, w))"
  by (simp add: property_access_def)

text \<open>
  With an identity, \<^verbatim>\<open>id\<close> returns it and touches nothing.
\<close>

lemma DataSet_id_assigned:
  "self_id (heap w r) = Some i \<Longrightarrow> DataSet_id w r = (Inr (IntV (int i)), w)"
  by (simp add: DataSet_id_def DataSet_id_getter_def)

lemma Image_id_assigned:
  "self_id (heap w r) = Some i \<Longrightarrow> Image_id w r = (Inr (IntV (int i)), w)"
  by (simp add: Image_id_def Image_id_getter_def)

lemma DBObject_id_assigned:
  "self_id (heap w r) = Some i \<Longrightarrow> DBObject_id w r = (Inr (IntV (int i)), w)"
  by (simp add: DBObject_id_def DBObject_id_getter_def)

lemma get_id_assigned: "self_id (heap w r) = Some i \<Longrightarrow> get_id w r = (Inr (IntV (int i)), w)"
  by (simp add: get_id_def DataSet_id_assigned Image_id_assigned DBObject_id_assigned
      split: cls.splits)

text \<open>
  Without one, the evaluation on an object where the function of the property finds
  all it reads inserts one row and stores its identity; and where the function cannot
  raise \<^verbatim>\<open>AttributeError\<close>, an evaluation that returns has been of that kind.
\<close>

lemma get_id_insert:
  assumes "id_insertable w r"
  shows "\<exists>i row.
       i \<notin> fst ` set (tables (db w) (TABLE (self_class (heap w r)))) \<and>
       get_id w r =
         (Inr (IntV (int i)),
          put (w\<lparr>db := (db w)\<lparr>tables := (tables (db w))
                   (TABLE (self_class (heap w r)) :=
                      tables (db w) (TABLE (self_class (heap w r))) @ [(i, row)])\<rparr>\<rparr>)
             r ((heap w r)\<lparr>self_id := Some i\<rparr>)) \<and>
       (\<forall>k \<in> set (copied_columns (self_class (heap w r)) (db w)).
          self_data (heap w r) k \<noteq> None \<longrightarrow> row k = self_data (heap w r) k) \<and>
       (\<forall>ds dsid. self_class (heap w r) = Image \<and> self_dataset (heap w r) = Some ds \<and>
          self_id (heap w ds) = Some dsid \<longrightarrow> row ''ds_id'' = Some (IntV (int dsid)))"
proof (cases "self_class (heap w r)")
  case DataSet
  let ?i = "new_id (tables (db w) ''datasets'')"
  from assms DataSet obtain name where n: "self_data (heap w r) ''dsinname'' = Some name"
    by (auto simp: id_insertable_def Let_def)
  show ?thesis
    by (rule exI [of _ ?i], rule exI [of _ "[''dsid'' \<mapsto> IntV (int ?i), ''dsinname'' \<mapsto> name]"])
      (use assms DataSet n in \<open>auto simp: id_insertable_def get_id_def DataSet_id_def
        DataSet_id_getter_def Let_def insert_dataset_def add_row_eq dest: new_id_pair\<close>)
next
  case Image
  let ?i = "new_id (tables (db w) ''images'')"
  from assms Image obtain ds dsid fe fb ts url where
    d: "self_dataset (heap w r) = Some ds" "self_id (heap w ds) = Some dsid"
    and k: "self_data (heap w r) ''freq_eff'' = Some fe" "self_data (heap w r) ''freq_bw'' = Some fb"
      "self_data (heap w r) ''taustart_ts'' = Some ts" "self_data (heap w r) ''url'' = Some url"
    by (auto simp: id_insertable_def Let_def split: option.splits)
  show ?thesis
    by (rule exI [of _ ?i],
        rule exI [of _ "[''imageid'' \<mapsto> IntV (int ?i), ''ds_id'' \<mapsto> IntV (int dsid),
          ''freq_eff'' \<mapsto> fe, ''freq_bw'' \<mapsto> fb, ''taustart_ts'' \<mapsto> ts, ''url'' \<mapsto> url]"])
      (use assms Image d k in \<open>auto simp: id_insertable_def get_id_def Image_id_def
        Image_id_getter_def Let_def DataSet_id_assigned insert_image_def add_row_eq
        dest: new_id_pair\<close>)
next
  case ExtractedSource
  let ?i = "new_id (tables (db w) ''extractedsources'')"
  show ?thesis
    by (rule exI [of _ ?i],
        rule exI [of _ "(self_data (heap w r) |` set (columns (db w) ''extractedsources''))
          (''xtrsrcid'' \<mapsto> IntV (int ?i))"])
      (use assms ExtractedSource in \<open>auto simp: id_insertable_def get_id_def DBObject_id_def
        DBObject_id_getter_def Let_def insert_row_def add_row_eq restrict_map_def
        dest: new_id_pair\<close>)
qed

lemma get_id_success_insertable:
  assumes "get_id w r = (Inr v, w')"
    and "self_id (heap w r) = None" and "self_database (heap w r) \<noteq> None"
    and "self_class (heap w r) = Image \<longrightarrow>
           (\<exists>ds. self_dataset (heap w r) = Some ds \<and> self_id (heap w ds) \<noteq> None)"
  shows "id_insertable w r"
proof (cases "self_class (heap w r)")
  case DataSet
  with assms show ?thesis
    by (auto simp: id_insertable_def get_id_def DataSet_id_def DataSet_id_getter_def Let_def
        split: option.splits)
next
  case Image
  with assms obtain ds dsid where "self_dataset (heap w r) = Some ds" "self_id (heap w ds) = Some dsid"
    by auto
  with assms Image show ?thesis
    by (auto simp: id_insertable_def get_id_def Image_id_def Image_id_getter_def Let_def
        DataSet_id_assigned split: option.splits)
next
  case ExtractedSource
  with assms show ?thesis
    by (auto simp: id_insertable_def Let_def)
qed

lemma self_id_update: "self_id (heap (snd (update w r kwargs)) x) = self_id (heap w x)"
  by (auto simp: update_def sync_with_database_def set_data_def Let_def
      split: option.splits list.splits)

text \<open>
  C8, as the code has it. For an object that holds an identity, \<^verbatim>\<open>id\<close> returns it
  and changes nothing, in the database or in the store. For an object without identity
  on which the function of the property finds all it reads (\<open>id_insertable\<close>), the
  evaluation of \<^verbatim>\<open>id\<close> appends exactly one row, with an identity new to the table, to
  the table of the class, stores that identity in the object, returns it, and changes
  nothing else. \<^verbatim>\<open>update\<close> never changes the identity of any object.
\<close>

theorem identity_assigned_once:
  "(\<forall>i. self_id (heap w r) = Some i \<longrightarrow> get_id w r = (Inr (IntV (int i)), w)) \<and>
   (id_insertable w r \<longrightarrow>
      (\<exists>i row.
         i \<notin> fst ` set (tables (db w) (TABLE (self_class (heap w r)))) \<and>
         get_id w r =
           (Inr (IntV (int i)),
            put (w\<lparr>db := (db w)\<lparr>tables := (tables (db w))
                     (TABLE (self_class (heap w r)) :=
                        tables (db w) (TABLE (self_class (heap w r))) @ [(i, row)])\<rparr>\<rparr>)
               r ((heap w r)\<lparr>self_id := Some i\<rparr>)))) \<and>
   (\<forall>kwargs x. self_id (heap (snd (update w r kwargs)) x) = self_id (heap w x))"
proof (intro conjI allI impI)
  fix i assume "self_id (heap w r) = Some i"
  then show "get_id w r = (Inr (IntV (int i)), w)" by (rule get_id_assigned)
next
  assume "id_insertable w r"
  from get_id_insert [OF this] show "\<exists>i row.
         i \<notin> fst ` set (tables (db w) (TABLE (self_class (heap w r)))) \<and>
         get_id w r =
           (Inr (IntV (int i)),
            put (w\<lparr>db := (db w)\<lparr>tables := (tables (db w))
                     (TABLE (self_class (heap w r)) :=
                        tables (db w) (TABLE (self_class (heap w r))) @ [(i, row)])\<rparr>\<rparr>)
               r ((heap w r)\<lparr>self_id := Some i\<rparr>))"
    by blast
next
  fix kwargs x
  show "self_id (heap (snd (update w r kwargs)) x) = self_id (heap w x)"
    by (rule self_id_update)
qed

text \<open>
  One object of each class: the first evaluation inserts one row and stores the
  identity, the second returns the same identity and the same store.
\<close>

lemma inserted_facts:
  assumes "get_id w r =
      (Inr (IntV (int i)),
       put (w\<lparr>db := (db w)\<lparr>tables := (tables (db w))(t := tbl @ [(i, row)])\<rparr>\<rparr>) r
         ((heap w r)\<lparr>self_id := Some i\<rparr>))"
    and "fst (get_id w r) = Inr (IntV j)"
  shows "int i = j \<and> map fst (tables (db (snd (get_id w r))) t) = map fst tbl @ [i] \<and>
    self_id (heap (snd (get_id w r)) r) = Some i"
  using assms by simp

theorem identity_assigned_once_witness:
  "id_insertable fresh_world 1 \<and> id_insertable fresh_world 2 \<and> id_insertable fresh_world 3 \<and>
   map self_class [heap fresh_world 1, heap fresh_world 2, heap fresh_world 3]
     = [Image, DataSet, ExtractedSource] \<and>
   fst (get_id fresh_world 1) = Inr (IntV 1) \<and>
   map fst (tables (db (snd (get_id fresh_world 1))) ''images'') = [1] \<and>
   self_id (heap (snd (get_id fresh_world 1)) 1) = Some 1 \<and>
   get_id (snd (get_id fresh_world 1)) 1 = (Inr (IntV 1), snd (get_id fresh_world 1)) \<and>
   fst (get_id fresh_world 2) = Inr (IntV 2) \<and>
   map fst (tables (db (snd (get_id fresh_world 2))) ''datasets'') = [1, 2] \<and>
   self_id (heap (snd (get_id fresh_world 2)) 2) = Some 2 \<and>
   get_id (snd (get_id fresh_world 2)) 2 = (Inr (IntV 2), snd (get_id fresh_world 2)) \<and>
   fst (get_id fresh_world 3) = Inr (IntV 1) \<and>
   map fst (tables (db (snd (get_id fresh_world 3))) ''extractedsources'') = [1] \<and>
   self_id (heap (snd (get_id fresh_world 3)) 3) = Some 1 \<and>
   get_id (snd (get_id fresh_world 3)) 3 = (Inr (IntV 1), snd (get_id fresh_world 3))"
proof -
  have ins: "id_insertable fresh_world 1" "id_insertable fresh_world 2" "id_insertable fresh_world 3"
    by (simp_all add: id_insertable_def example_defs alloc_def DBObject_init_def)
  have cl: "map self_class [heap fresh_world 1, heap fresh_world 2, heap fresh_world 3]
     = [Image, DataSet, ExtractedSource]"
    by (simp add: example_defs alloc_def DBObject_init_def)
  have t: "tables (db fresh_world) ''images'' = []"
    "tables (db fresh_world) ''datasets''
       = [(1, [''dsid'' \<mapsto> IntV 1, ''dsinname'' \<mapsto> StrV ''a dataset''])]"
    "tables (db fresh_world) ''extractedsources'' = []"
    by (simp_all add: example_defs)
  have c: "TABLE (self_class (heap fresh_world 1)) = ''images''"
    "TABLE (self_class (heap fresh_world 2)) = ''datasets''"
    "TABLE (self_class (heap fresh_world 3)) = ''extractedsources''"
    by (simp_all add: example_defs alloc_def DBObject_init_def)
  have e: "fst (get_id fresh_world 1) = Inr (IntV 1)" "fst (get_id fresh_world 2) = Inr (IntV 2)"
    "fst (get_id fresh_world 3) = Inr (IntV 1)"
    by (simp_all add: example_defs method_defs)
  note th = identity_assigned_once [THEN conjunct2, THEN conjunct1, rule_format]
  note again = identity_assigned_once [THEN conjunct1, rule_format]
  from th [OF ins(1)] obtain i1 row1 where
    "get_id fresh_world 1 = (Inr (IntV (int i1)),
       put (fresh_world\<lparr>db := (db fresh_world)\<lparr>tables := (tables (db fresh_world))
              (''images'' := [] @ [(i1, row1)])\<rparr>\<rparr>) 1
         ((heap fresh_world 1)\<lparr>self_id := Some i1\<rparr>))"
    unfolding c t by blast
  from inserted_facts [OF this e(1)]
  have 1: "map fst (tables (db (snd (get_id fresh_world 1))) ''images'') = [1]"
    "self_id (heap (snd (get_id fresh_world 1)) 1) = Some 1" by simp_all
  from th [OF ins(2)] obtain i2 row2 where
    "get_id fresh_world 2 = (Inr (IntV (int i2)),
       put (fresh_world\<lparr>db := (db fresh_world)\<lparr>tables := (tables (db fresh_world))
              (''datasets'' := [(1, [''dsid'' \<mapsto> IntV 1, ''dsinname'' \<mapsto> StrV ''a dataset''])]
                 @ [(i2, row2)])\<rparr>\<rparr>) 2
         ((heap fresh_world 2)\<lparr>self_id := Some i2\<rparr>))"
    unfolding c t by blast
  from inserted_facts [OF this e(2)]
  have 2: "map fst (tables (db (snd (get_id fresh_world 2))) ''datasets'') = [1, 2]"
    "self_id (heap (snd (get_id fresh_world 2)) 2) = Some 2" by simp_all
  from th [OF ins(3)] obtain i3 row3 where
    "get_id fresh_world 3 = (Inr (IntV (int i3)),
       put (fresh_world\<lparr>db := (db fresh_world)\<lparr>tables := (tables (db fresh_world))
              (''extractedsources'' := [] @ [(i3, row3)])\<rparr>\<rparr>) 3
         ((heap fresh_world 3)\<lparr>self_id := Some i3\<rparr>))"
    unfolding c t by blast
  from inserted_facts [OF this e(3)]
  have 3: "map fst (tables (db (snd (get_id fresh_world 3))) ''extractedsources'') = [1]"
    "self_id (heap (snd (get_id fresh_world 3)) 3) = Some 1" by simp_all
  from again [OF 1(2)] again [OF 2(2)] again [OF 3(2)] ins cl e 1 2 3 show ?thesis
    by simp
qed

text \<open>
  C8 as stated fails. \<^verbatim>\<open>Image(data=..., database=db)\<close> without a dataset returns (the
  \<^verbatim>\<open>AttributeError\<close> of \<^verbatim>\<open>self.dataset.id\<close> inside the property sends the lookup to
  \<^verbatim>\<open>__getattr__('id')\<close>, and the data have a key \<^verbatim>\<open>id\<close>); on that Image the evaluation
  of \<^verbatim>\<open>id\<close> returns 5, inserts no row and stores no identity. And for an Image whose
  dataset has no identity yet, the first evaluation inserts two rows, one in
  \<^verbatim>\<open>datasets\<close> and one in \<^verbatim>\<open>images\<close>.
\<close>

theorem identity_assigned_once_counterexample:
  "fst (Image_init example_world
         (Some (example_image_data(''ds_id'' \<mapsto> IntV 1, ''id'' \<mapsto> IntV 5)))
         None (Some DataBase) None) = Inr 1 \<and>
   self_id (heap unowned_world 1) = None \<and>
   fst (get_id unowned_world 1) = Inr (IntV 5) \<and>
   self_id (heap (snd (get_id unowned_world 1)) 1) = None \<and>
   tables (db (snd (get_id unowned_world 1))) ''images'' = [] \<and>
   self_id (heap lazy_world 2) = None \<and>
   fst (get_id lazy_world 2) = Inr (IntV 1) \<and>
   map fst (tables (db lazy_world) ''datasets'') = [1] \<and>
   map fst (tables (db (snd (get_id lazy_world 2))) ''datasets'') = [1, 2] \<and>
   map fst (tables (db lazy_world) ''images'') = [] \<and>
   map fst (tables (db (snd (get_id lazy_world 2))) ''images'') = [1]"
  by (simp add: unowned_world_def example_defs method_defs)

subsection \<open>Attribute access\<close>







subsection \<open>Constructors without a database\<close>

lemma finish_init_no_database:
  "self_database (heap w r) = None \<Longrightarrow> finish_init w r = (Inl ValueError, w)"
  by (simp add: finish_init_def)

lemma DataSet_id_no_database_world:
  "self_database (heap w r) = None \<Longrightarrow> snd (DataSet_id w r) = w"
  by (auto simp: DataSet_id_def DataSet_id_getter_def Let_def split: option.splits)

lemma Image_id_no_database_world:
  "self_database (heap w r) = None \<Longrightarrow> snd (Image_id w r) = w"
  by (auto simp: Image_id_def Image_id_getter_def split: option.splits)

lemma DataSet_init_no_database:
  "(\<exists>e. fst (DataSet_init w data None ident) = Inl e) \<and>
   untouched w (snd (DataSet_init w data None ident)) ident"
  by (simp add: DataSet_init_def finish_init_no_database DBObject_init_def untouched_def)

lemma Image_init_no_database:
  assumes "\<forall>ds. dataset = Some ds \<longrightarrow> self_database (heap w ds) = None"
  shows "(\<exists>e. fst (Image_init w data dataset None ident) = Inl e) \<and>
   untouched w (snd (Image_init w data dataset None ident)) ident"
proof (cases dataset)
  case None
  then show ?thesis
    by (simp add: Image_init_def finish_init_no_database DBObject_init_def untouched_def Let_def)
next
  case (Some ds)
  define w1 where "w1 = alloc w ((DBObject_init Image data None ident)\<lparr>self_dataset := Some ds\<rparr>)"
  define w3 where
    "w3 = put w1 ds ((heap w1 ds)\<lparr>self_images := insert (next_ref w) (self_images (heap w1 ds))\<rparr>)"
  have d1: "self_database (heap w1 ds) = None"
    using assms Some by (simp add: w1_def DBObject_init_def)
  have r1: "self_database (heap w1 (next_ref w)) = None"
    by (simp add: w1_def DBObject_init_def)
  have inh: "inherit_database w1 (next_ref w) ds = w1"
    using d1 by (simp add: inherit_database_def)
  have d3: "self_database (heap w3 ds) = None" and r3: "self_database (heap w3 (next_ref w)) = None"
    using d1 r1 by (simp_all add: w3_def)
  have w4: "snd (DataSet_id w3 ds) = w3"
    using d3 by (rule DataSet_id_no_database_world)
  have un: "untouched w w3 ident"
    by (auto simp: untouched_def w3_def w1_def DBObject_init_def)
  have eq: "Image_init w data dataset None ident =
      (case DataSet_id w3 ds of
         (Inl e, w4) \<Rightarrow> (Inl e, w4)
       | (Inr dsid, w4) \<Rightarrow>
           finish_init
             (set_sources
                (put w4 (next_ref w) ((heap w4 (next_ref w))\<lparr>self_data :=
                   setdefault (self_data (heap w4 (next_ref w))) ''ds_id'' dsid\<rparr>))
                (next_ref w))
             (next_ref w))"
    unfolding Some Image_init_def Let_def w3_def using inh unfolding w1_def by simp
  show ?thesis
  proof (cases "DataSet_id w3 ds")
    case (Pair res w4')
    with w4 have w4': "w4' = w3" by simp
    show ?thesis
    proof (cases res)
      case (Inl e)
      with Pair w4' eq un show ?thesis by simp
    next
      case (Inr dsid)
      with Pair w4' eq un r3 show ?thesis
        by (auto simp: finish_init_no_database untouched_def)
    qed
  qed
qed

lemma ExtractedSource_init_no_database:
  assumes "\<forall>im. img = Some im \<longrightarrow> self_database (heap w im) = None \<and>
             (\<forall>ds. self_dataset (heap w im) = Some ds \<longrightarrow> self_database (heap w ds) = None)"
  shows "(\<exists>e. fst (ExtractedSource_init w data img None ident) = Inl e) \<and>
   untouched w (snd (ExtractedSource_init w data img None ident)) ident"
proof (cases img)
  case None
  then show ?thesis
    by (simp add: ExtractedSource_init_def finish_init_no_database DBObject_init_def
        untouched_def Let_def)
next
  case (Some im)
  define w1 where
    "w1 = alloc w ((DBObject_init ExtractedSource data None ident)\<lparr>self_image := Some im\<rparr>)"
  have un1: "untouched w w1 ident"
    by (auto simp: untouched_def w1_def DBObject_init_def)
  show ?thesis
  proof (cases "self_dataset (heap w1 im)")
    case None
    then show ?thesis
      using un1 unfolding Some ExtractedSource_init_def Let_def w1_def by simp
  next
    case ds: (Some ds)
    then have neq: "im \<noteq> next_ref w"
      by (auto simp: w1_def DBObject_init_def split: if_splits)
    then have ds': "self_dataset (heap w im) = Some ds"
      using ds by (simp add: w1_def)
    have d1: "self_database (heap w1 ds) = None"
      using assms Some ds' by (simp add: w1_def DBObject_init_def)
    have inh: "inherit_database w1 (next_ref w) ds = w1"
      using d1 by (simp add: inherit_database_def)
    show ?thesis
    proof (cases "self_sources (heap w1 im)")
      case None
      then show ?thesis
        using un1 ds inh unfolding Some ExtractedSource_init_def Let_def w1_def
        by (auto split: sum.splits)
    next
      case srcs: (Some srcs)
      define w3 where
        "w3 = put w1 im ((heap w1 im)\<lparr>self_sources := Some (insert (next_ref w) srcs)\<rparr>)"
      have i3: "self_database (heap w3 im) = None"
        using assms Some neq by (simp add: w3_def w1_def)
      have r3: "self_database (heap w3 (next_ref w)) = None"
        using neq by (simp add: w3_def w1_def DBObject_init_def)
      have w4: "snd (Image_id w3 im) = w3"
        using i3 by (rule Image_id_no_database_world)
      have un: "untouched w w3 ident"
        using un1 by (auto simp: untouched_def w3_def)
      have eq: "ExtractedSource_init w data img None ident =
        (case Image_id w3 im of
           (Inl e, w4) \<Rightarrow> (Inl e, w4)
         | (Inr imageid, w4) \<Rightarrow>
             finish_init
               (put w4 (next_ref w) ((heap w4 (next_ref w))\<lparr>self_data :=
                  setdefault (self_data (heap w4 (next_ref w))) ''image_id'' imageid\<rparr>))
               (next_ref w))"
        unfolding Some ExtractedSource_init_def Let_def w3_def
        using inh ds srcs unfolding w1_def by simp
      show ?thesis
      proof (cases "Image_id w3 im")
        case (Pair res w4')
        with w4 have w4': "w4' = w3" by simp
        show ?thesis
        proof (cases res)
          case (Inl e)
          with Pair w4' eq un show ?thesis by simp
        next
          case (Inr imageid)
          with Pair w4' eq un r3 show ?thesis
            by (auto simp: finish_init_no_database untouched_def)
        qed
      qed
    qed
  qed
qed

text \<open>
  C10: a constructor that is given no database, and whose dataset or image argument
  (if any) leads to none (neither the dataset of an Image, nor the image of an
  ExtractedSource or that image's dataset, holds one), fails with an error; the
  database is as before, and no object has got an identity.
\<close>

theorem construction_needs_database:
  "((\<exists>e. fst (DataSet_init w data None ident) = Inl e) \<and>
      untouched w (snd (DataSet_init w data None ident)) ident) \<and>
   ((\<forall>ds. dataset = Some ds \<longrightarrow> self_database (heap w ds) = None) \<longrightarrow>
      (\<exists>e. fst (Image_init w data dataset None ident) = Inl e) \<and>
      untouched w (snd (Image_init w data dataset None ident)) ident) \<and>
   ((\<forall>im. img = Some im \<longrightarrow> self_database (heap w im) = None \<and>
        (\<forall>ds. self_dataset (heap w im) = Some ds \<longrightarrow> self_database (heap w ds) = None)) \<longrightarrow>
      (\<exists>e. fst (ExtractedSource_init w data img None ident) = Inl e) \<and>
      untouched w (snd (ExtractedSource_init w data img None ident)) ident)"
  using DataSet_init_no_database Image_init_no_database ExtractedSource_init_no_database
  by blast

theorem construction_needs_database_witness:
  "fst (DataSet_init orphan_world (Some example_image_data) None None) = Inl ValueError \<and>
   db (snd (DataSet_init orphan_world (Some example_image_data) None None)) = db orphan_world \<and>
   self_database (heap orphan_world 0) = None \<and>
   fst (Image_init orphan_world (Some example_image_data) (Some 0) None None) = Inl ValueError \<and>
   db (snd (Image_init orphan_world (Some example_image_data) (Some 0) None None)) = db orphan_world \<and>
   self_database (heap orphan_world 1) = None \<and>
   self_dataset (heap orphan_world 1) = Some 0 \<and>
   fst (ExtractedSource_init orphan_world (Some example_image_data) (Some 1) None None)
     = Inl ValueError \<and>
   db (snd (ExtractedSource_init orphan_world (Some example_image_data) (Some 1) None None))
     = db orphan_world"
proof -
  have d0: "self_database (heap orphan_world 0) = None"
    and d1: "self_database (heap orphan_world 1) = None"
    and ds: "self_dataset (heap orphan_world 1) = Some 0"
    by (simp_all add: example_defs)
  have a: "\<forall>ds. Some 0 = Some ds \<longrightarrow> self_database (heap orphan_world ds) = None"
    using d0 by simp
  have b: "\<forall>im. Some 1 = Some im \<longrightarrow> self_database (heap orphan_world im) = None \<and>
        (\<forall>ds. self_dataset (heap orphan_world im) = Some ds \<longrightarrow>
           self_database (heap orphan_world ds) = None)"
    using d0 d1 ds by simp
  note c1 = construction_needs_database
    [where w = orphan_world and data = "Some example_image_data" and ident = None
       and dataset = "Some 0" and img = "Some 1"]
  have e1: "fst (DataSet_init orphan_world (Some example_image_data) None None) = Inl ValueError"
    by (simp add: example_defs method_defs)
  have e2: "fst (Image_init orphan_world (Some example_image_data) (Some 0) None None) = Inl ValueError"
    by (simp add: example_defs method_defs)
  have e3: "fst (ExtractedSource_init orphan_world (Some example_image_data) (Some 1) None None)
      = Inl ValueError"
    by (simp add: example_defs method_defs)
  show ?thesis
    using c1 a b d0 d1 ds e1 e2 e3 by (simp add: untouched_def)
qed

subsection \<open>Fresh creation\<close>

lemma finish_init_fresh:
  assumes "self_id (heap w r) = None"
  shows "finish_init w r =
     (case self_database (heap w r) of
        None \<Rightarrow> (Inl ValueError, w)
      | Some _ \<Rightarrow>
         (case find (\<lambda>key. self_data (heap w r) key = None) (REQUIRED (self_class (heap w r))) of
            Some key \<Rightarrow> (Inl (MissingRequired key), w)
          | None \<Rightarrow>
             (case get_id w r of
                (Inl e, w1) \<Rightarrow> (Inl e, w1)
              | (Inr _, w1) \<Rightarrow> (Inr r, w1))))"
  using assms
  by (auto simp: finish_init_def init_data_def Let_def split: option.splits prod.splits sum.splits)

lemma finish_init_load:
  assumes "self_id (heap w r) = Some i" and "self_database (heap w r) \<noteq> None"
    and "columns_from_table (db w) (TABLE (self_class (heap w r))) (Some i) = row # rest"
  shows "finish_init w r = (Inr r, put w r ((heap w r)\<lparr>self_data := row\<rparr>))"
  using assms
  by (auto simp: finish_init_def init_data_def Let_def update_empty sync_row)

text \<open>
  What a constructor has done when it reaches its last two statements, for an owner that
  holds its identity.
\<close>

lemma Image_init_identified_dataset:
  assumes "ds < next_ref w" and "self_id (heap w ds) = Some dsid"
  shows "\<exists>w5. Image_init w data (Some ds) database ident = finish_init w5 (next_ref w) \<and>
     db w5 = db w \<and> next_ref w5 = Suc (next_ref w) \<and>
     heap w5 (next_ref w) =
       (DBObject_init Image data
          (if database = None then self_database (heap w ds) else database) ident)
         \<lparr>self_dataset := Some ds,
          self_data := setdefault (case data of None \<Rightarrow> Map.empty | Some d \<Rightarrow> d) ''ds_id''
                         (IntV (int dsid)),
          self_sources := Some {}\<rparr> \<and>
     heap w5 ds = (heap w ds)\<lparr>self_images := insert (next_ref w) (self_images (heap w ds))\<rparr> \<and>
     (\<forall>x. x \<noteq> next_ref w \<and> x \<noteq> ds \<longrightarrow> heap w5 x = heap w x)"
  using assms
  by (auto simp: Image_init_def Let_def inherit_database_def DataSet_id_assigned
      DBObject_init_def)

lemma ExtractedSource_init_identified_image:
  assumes "im < next_ref w" and "self_id (heap w im) = Some imageid"
    and "self_dataset (heap w im) = Some ds" and "ds < next_ref w"
    and "self_sources (heap w im) = Some srcs"
  shows "\<exists>w5. ExtractedSource_init w data (Some im) database ident = finish_init w5 (next_ref w) \<and>
     db w5 = db w \<and> next_ref w5 = Suc (next_ref w) \<and>
     heap w5 (next_ref w) =
       (DBObject_init ExtractedSource data
          (if database = None then self_database (heap w ds) else database) ident)
         \<lparr>self_image := Some im,
          self_data := setdefault (case data of None \<Rightarrow> Map.empty | Some d \<Rightarrow> d) ''image_id''
                         (IntV (int imageid))\<rparr> \<and>
     heap w5 im = (heap w im)\<lparr>self_sources := Some (insert (next_ref w) srcs)\<rparr> \<and>
     (\<forall>x. x \<noteq> next_ref w \<and> x \<noteq> im \<longrightarrow> heap w5 x = heap w x)"
  using assms
  by (auto simp: ExtractedSource_init_def Let_def inherit_database_def Image_id_assigned
      DBObject_init_def)

lemma setdefault_keeps: "data k \<noteq> None \<Longrightarrow> setdefault data k' v k = data k"
  by (auto simp: setdefault_def split: option.splits)

lemma with_owner_id_keeps: "data k \<noteq> None \<Longrightarrow> with_owner_id c w data owner k = data k"
  by (auto simp: with_owner_id_def setdefault_keeps split: option.splits cls.splits)

lemma create_normal_form:
  assumes "owner_identified c w owner" and "database_available c w owner database"
  shows "\<exists>w5. create c w data owner database = finish_init w5 (next_ref w) \<and>
     db w5 = db w \<and> next_ref w5 = Suc (next_ref w) \<and>
     self_id (heap w5 (next_ref w)) = None \<and>
     self_class (heap w5 (next_ref w)) = c \<and>
     self_database (heap w5 (next_ref w)) \<noteq> None \<and>
     self_data (heap w5 (next_ref w)) = with_owner_id c w data owner \<and>
     (c = Image \<longrightarrow> self_dataset (heap w5 (next_ref w)) = owner) \<and>
     (\<forall>x. x \<noteq> next_ref w \<longrightarrow> self_id (heap w5 x) = self_id (heap w x))"
proof (cases owner)
  case None
  with assms(2) have d: "database \<noteq> None" by (simp add: database_available_def)
  let ?obj = "DBObject_init c (Some data) database None"
  let ?new = "if c = DataSet then ?obj else if c = Image
           then ?obj\<lparr>self_dataset := None, self_sources := Some {}\<rparr>
           else ?obj\<lparr>self_image := None\<rparr>"
  have eq: "create c w data owner database = finish_init (alloc w ?new) (next_ref w)"
    using None
    by (cases c) (simp_all add: create_def DataSet_init_def Image_init_def
        ExtractedSource_init_def Let_def set_sources_alloc)
  show ?thesis
    by (rule exI [of _ "alloc w ?new"])
      (use eq None d in \<open>auto simp: DBObject_init_def with_owner_id_def\<close>)
next
  case (Some ow)
  with assms(1) obtain i where ow: "ow < next_ref w" "self_id (heap w ow) = Some i" "c \<noteq> DataSet"
    by (auto simp: owner_identified_def)
  show ?thesis
  proof (cases c)
    case DataSet
    with ow show ?thesis by simp
  next
    case Image
    from Image_init_identified_dataset [OF ow(1,2), of "Some data" database None]
    obtain w5 where w5: "Image_init w (Some data) (Some ow) database None = finish_init w5 (next_ref w)"
      "db w5 = db w" "next_ref w5 = Suc (next_ref w)"
      "heap w5 (next_ref w) =
       (DBObject_init Image (Some data)
          (if database = None then self_database (heap w ow) else database) None)
         \<lparr>self_dataset := Some ow,
          self_data := setdefault data ''ds_id'' (IntV (int i)),
          self_sources := Some {}\<rparr>"
      "heap w5 ow = (heap w ow)\<lparr>self_images := insert (next_ref w) (self_images (heap w ow))\<rparr>"
      "\<forall>x. x \<noteq> next_ref w \<and> x \<noteq> ow \<longrightarrow> heap w5 x = heap w x"
      by auto
    have ids: "\<forall>x. x \<noteq> next_ref w \<longrightarrow> self_id (heap w5 x) = self_id (heap w x)"
    proof (intro allI impI)
      fix x assume "x \<noteq> next_ref w"
      then show "self_id (heap w5 x) = self_id (heap w x)"
        using w5(5,6) by (cases "x = ow") auto
    qed
    show ?thesis
      by (rule exI [of _ w5])
        (use Image Some ow assms(2) w5(1-4) ids in
          \<open>auto simp: create_def DBObject_init_def with_owner_id_def database_available_def\<close>)
  next
    case ExtractedSource
    with assms(1) Some obtain ds srcs where ds: "self_dataset (heap w ow) = Some ds" "ds < next_ref w"
      "self_sources (heap w ow) = Some srcs"
      by (auto simp: owner_identified_def split: option.splits)
    from ExtractedSource_init_identified_image [OF ow(1,2) ds, of "Some data" database None]
    obtain w5 where w5:
      "ExtractedSource_init w (Some data) (Some ow) database None = finish_init w5 (next_ref w)"
      "db w5 = db w" "next_ref w5 = Suc (next_ref w)"
      "heap w5 (next_ref w) =
       (DBObject_init cls.ExtractedSource (Some data)
          (if database = None then self_database (heap w ds) else database) None)
         \<lparr>self_image := Some ow,
          self_data := setdefault data ''image_id'' (IntV (int i))\<rparr>"
      "heap w5 ow = (heap w ow)\<lparr>self_sources := Some (insert (next_ref w) srcs)\<rparr>"
      "\<forall>x. x \<noteq> next_ref w \<and> x \<noteq> ow \<longrightarrow> heap w5 x = heap w x"
      by auto
    have ids: "\<forall>x. x \<noteq> next_ref w \<longrightarrow> self_id (heap w5 x) = self_id (heap w x)"
    proof (intro allI impI)
      fix x assume "x \<noteq> next_ref w"
      then show "self_id (heap w5 x) = self_id (heap w x)"
        using w5(5,6) by (cases "x = ow") auto
    qed
    show ?thesis
      by (rule exI [of _ w5])
        (use ExtractedSource Some ow ds assms(2) w5(1-4) ids in
          \<open>auto simp: create_def DBObject_init_def with_owner_id_def database_available_def\<close>)
  qed
qed

lemma create_fresh_success:
  assumes "create c w data owner database = (Inr r, w1)"
    and "owner_identified c w owner" and "database_available c w owner database"
    and "c = Image \<longrightarrow> owner \<noteq> None"
  shows "r = next_ref w \<and> next_ref w1 = Suc (next_ref w) \<and>
    (\<exists>i row.
       self_id (heap w1 r) = Some i \<and>
       i \<notin> fst ` set (tables (db w) (TABLE c)) \<and>
       db w1 = (db w)\<lparr>tables := (tables (db w))(TABLE c := tables (db w) (TABLE c) @ [(i, row)])\<rparr> \<and>
       self_data (heap w1 r) = with_owner_id c w data owner \<and>
       (\<forall>x. x \<noteq> r \<longrightarrow> self_id (heap w1 x) = self_id (heap w x)) \<and>
       (\<forall>k \<in> set (copied_columns c (db w)). data k \<noteq> None \<longrightarrow> row k = data k) \<and>
       (\<forall>ds dsid. c = Image \<and> owner = Some ds \<and> self_id (heap w ds) = Some dsid
          \<longrightarrow> row ''ds_id'' = Some (IntV (int dsid))))"
proof -
  from create_normal_form [OF assms(2,3), of data]
  obtain w5 where w5: "create c w data owner database = finish_init w5 (next_ref w)"
     "db w5 = db w" "next_ref w5 = Suc (next_ref w)"
     "self_id (heap w5 (next_ref w)) = None"
     "self_class (heap w5 (next_ref w)) = c"
     "self_database (heap w5 (next_ref w)) \<noteq> None"
     "self_data (heap w5 (next_ref w)) = with_owner_id c w data owner"
     "c = Image \<longrightarrow> self_dataset (heap w5 (next_ref w)) = owner"
     "\<forall>x. x \<noteq> next_ref w \<longrightarrow> self_id (heap w5 x) = self_id (heap w x)"
    by blast
  from assms(1) w5(1) have fin: "finish_init w5 (next_ref w) = (Inr r, w1)" by simp
  then obtain v where r: "r = next_ref w" and g: "get_id w5 (next_ref w) = (Inr v, w1)"
    by (auto simp: finish_init_fresh [OF w5(4)] split: option.splits prod.splits sum.splits)
  have own: "self_class (heap w5 (next_ref w)) = Image \<longrightarrow>
       (\<exists>ds. self_dataset (heap w5 (next_ref w)) = Some ds \<and> self_id (heap w5 ds) \<noteq> None)"
  proof
    assume "self_class (heap w5 (next_ref w)) = Image"
    with w5(5) have c: "c = Image" by simp
    with assms(4) obtain ds where o: "owner = Some ds" by auto
    with assms(2) c have "ds < next_ref w" "self_id (heap w ds) \<noteq> None"
      by (auto simp: owner_identified_def)
    with w5(8,9) c o
    show "\<exists>ds. self_dataset (heap w5 (next_ref w)) = Some ds \<and> self_id (heap w5 ds) \<noteq> None"
      by auto
  qed
  from get_id_success_insertable [OF g w5(4) w5(6) own]
  have ins: "id_insertable w5 (next_ref w)" .
  from get_id_insert [OF ins] g obtain i row where
    fresh: "i \<notin> fst ` set (tables (db w5) (TABLE c))"
    and w1: "w1 = put (w5\<lparr>db := (db w5)\<lparr>tables := (tables (db w5))
                   (TABLE c := tables (db w5) (TABLE c) @ [(i, row)])\<rparr>\<rparr>)
             (next_ref w) ((heap w5 (next_ref w))\<lparr>self_id := Some i\<rparr>)"
    and cols: "\<forall>k \<in> set (copied_columns c (db w5)).
          self_data (heap w5 (next_ref w)) k \<noteq> None \<longrightarrow> row k = self_data (heap w5 (next_ref w)) k"
    and dsid: "\<forall>ds dsid. c = Image \<and> self_dataset (heap w5 (next_ref w)) = Some ds \<and>
          self_id (heap w5 ds) = Some dsid \<longrightarrow> row ''ds_id'' = Some (IntV (int dsid))"
    unfolding w5(5) by auto
  have cols': "\<forall>k \<in> set (copied_columns c (db w)). data k \<noteq> None \<longrightarrow> row k = data k"
    using cols w5(2,7) by (auto simp: with_owner_id_keeps)
  have dsid': "\<forall>ds dsid. c = Image \<and> owner = Some ds \<and> self_id (heap w ds) = Some dsid
          \<longrightarrow> row ''ds_id'' = Some (IntV (int dsid))"
  proof (intro allI impI)
    fix ds d
    assume a: "c = Image \<and> owner = Some ds \<and> self_id (heap w ds) = Some d"
    with assms(2) have "ds \<noteq> next_ref w" by (auto simp: owner_identified_def)
    with a w5(8,9) dsid show "row ''ds_id'' = Some (IntV (int d))" by auto
  qed
  show ?thesis
    using r w1 fresh w5(2,3,7,9) cols' dsid' by (auto simp: put_def)
qed

lemma load_row:
  assumes "columns_from_table (db w) (TABLE c) (Some i) = row # rest"
  shows "\<exists>w2. load c w i = (Inr (next_ref w), w2) \<and> db w2 = db w \<and>
     self_data (heap w2 (next_ref w)) = row \<and> self_id (heap w2 (next_ref w)) = Some i"
proof -
  let ?obj = "DBObject_init c None (Some DataBase) (Some i)"
  let ?new = "if c = DataSet then ?obj else if c = Image
           then ?obj\<lparr>self_dataset := None, self_sources := Some {}\<rparr>
           else ?obj\<lparr>self_image := None\<rparr>"
  have eq: "load c w i = finish_init (alloc w ?new) (next_ref w)"
    by (cases c) (simp_all add: load_def DataSet_init_def Image_init_def
        ExtractedSource_init_def Let_def set_sources_alloc)
  have "finish_init (alloc w ?new) (next_ref w)
      = (Inr (next_ref w), put (alloc w ?new) (next_ref w)
           ((heap (alloc w ?new) (next_ref w))\<lparr>self_data := row\<rparr>))"
    using assms by (intro finish_init_load [where i = i and rest = rest])
      (auto simp: DBObject_init_def)
  with eq show ?thesis by (auto simp: DBObject_init_def)
qed

text \<open>
  C7, as the code has it: when an Image is created fresh with a dataset argument (a
  constructed DataSet) and the constructor returns, the Image is in the dataset's
  \<^verbatim>\<open>images\<close> set, and its \<^verbatim>\<open>ds_id\<close> attribute is the dataset's identity if the data
  had no \<^verbatim>\<open>ds_id\<close>, and the supplied \<^verbatim>\<open>ds_id\<close> otherwise (\<^verbatim>\<open>setdefault\<close>).
\<close>

theorem image_ds_id:
  assumes "Image_init w (Some data) (Some ds) database None = (Inr r, w')"
    and "ds < next_ref w" and "self_id (heap w ds) = Some dsid"
  shows "r \<in> self_images (heap w' ds) \<and> self_id (heap w' ds) = Some dsid \<and>
    getattr (heap w' r) ''ds_id'' =
      Inr (case data ''ds_id'' of None \<Rightarrow> IntV (int dsid) | Some v \<Rightarrow> v)"
proof -
  from Image_init_identified_dataset [OF assms(2,3), of "Some data" database None]
  obtain w5 where w5: "Image_init w (Some data) (Some ds) database None = finish_init w5 (next_ref w)"
      "heap w5 (next_ref w) =
       (DBObject_init Image (Some data)
          (if database = None then self_database (heap w ds) else database) None)
         \<lparr>self_dataset := Some ds,
          self_data := setdefault data ''ds_id'' (IntV (int dsid)),
          self_sources := Some {}\<rparr>"
      "heap w5 ds = (heap w ds)\<lparr>self_images := insert (next_ref w) (self_images (heap w ds))\<rparr>"
    by auto
  have none: "self_id (heap w5 (next_ref w)) = None"
    and cl: "self_class (heap w5 (next_ref w)) = Image"
    and dat: "self_dataset (heap w5 (next_ref w)) = Some ds"
    by (simp_all add: w5(2) DBObject_init_def)
  from assms(1) w5(1) have fin: "finish_init w5 (next_ref w) = (Inr r, w')" by simp
  then obtain v where r: "r = next_ref w" and g: "get_id w5 (next_ref w) = (Inr v, w')"
    and d: "self_database (heap w5 (next_ref w)) \<noteq> None"
    by (auto simp: finish_init_fresh [OF none] split: option.splits prod.splits sum.splits)
  have "self_class (heap w5 (next_ref w)) = Image \<longrightarrow>
       (\<exists>d. self_dataset (heap w5 (next_ref w)) = Some d \<and> self_id (heap w5 d) \<noteq> None)"
    using dat w5(3) assms(3) by auto
  from get_id_insert [OF get_id_success_insertable [OF g none d this]] g obtain d' i where
    w': "w' = put (w5\<lparr>db := d'\<rparr>) (next_ref w) ((heap w5 (next_ref w))\<lparr>self_id := Some i\<rparr>)"
    by auto
  have neq: "ds \<noteq> next_ref w" using assms(2) by simp
  show ?thesis
    using r neq assms(3) unfolding w'
    by (auto simp: put_def w5(2,3) getattr_def setdefault_def DBObject_init_def
        split: option.splits)
qed

theorem image_ds_id_witness:
  "fst (Image_init example_world (Some example_image_data) (Some 0) None None) = Inr 1 \<and>
   self_id (heap example_world 0) = Some 1 \<and>
   example_image_data ''ds_id'' = None \<and>
   1 \<in> self_images (heap (snd (Image_init example_world (Some example_image_data) (Some 0) None None)) 0) \<and>
   getattr (heap (snd (Image_init example_world (Some example_image_data) (Some 0) None None)) 1)
     ''ds_id'' = Inr (IntV 1)"
proof -
  have e: "fst (Image_init example_world (Some example_image_data) (Some 0) None None) = Inr 1"
    by (simp add: example_defs method_defs)
  then have g: "Image_init example_world (Some example_image_data) (Some 0) None None
      = (Inr 1, snd (Image_init example_world (Some example_image_data) (Some 0) None None))"
    by (simp add: prod_eq_iff)
  have n: "(0::nat) < next_ref example_world" by (simp add: example_defs)
  have d: "example_image_data ''ds_id'' = None" by (simp add: example_defs)
  from image_ds_id [OF g n example_id] e d example_id show ?thesis by simp
qed

text \<open>
  C7 as stated fails for a data map that brings its own \<^verbatim>\<open>ds_id\<close>: the dataset has
  the identity 1, the Image's \<^verbatim>\<open>ds_id\<close> attribute is 99.
\<close>

theorem image_ds_id_counterexample:
  "fst (Image_init example_world (Some (example_image_data(''ds_id'' \<mapsto> IntV 99))) (Some 0) None None)
     = Inr 1 \<and>
   self_id (heap (snd (Image_init example_world (Some (example_image_data(''ds_id'' \<mapsto> IntV 99)))
                         (Some 0) None None)) 0) = Some 1 \<and>
   getattr (heap (snd (Image_init example_world (Some (example_image_data(''ds_id'' \<mapsto> IntV 99)))
                         (Some 0) None None)) 1) ''ds_id'' = Inr (IntV 99)"
  by (simp add: example_defs method_defs getattr_def)

text \<open>
  C4, as the code has it. Let a database be available (given directly, or held by the
  dataset of an Image or by the dataset of the image of an ExtractedSource), and let
  the owner, if one is given, hold its identity (the image of an ExtractedSource
  moreover having its \<^verbatim>\<open>sources\<close> set and a dataset). If the attribute map, with the
  owner's identity put under \<^verbatim>\<open>ds_id\<close> or \<^verbatim>\<open>image_id\<close> where that key was not
  supplied, misses an attribute of the required set, creation fails with the
  missing-required error for the first such attribute, the database is unchanged and no
  existing object gets an identity. If it misses none (and, for an Image, a dataset is
  given and \<^verbatim>\<open>url\<close> is supplied), creation returns the new object, which holds an
  identity new to the table, and exactly one row, with that identity, has been appended
  to the table of the class.
\<close>

theorem create_required:
  assumes "owner_identified c w owner" and "database_available c w owner database"
  shows
   "(\<forall>key. find (\<lambda>key. with_owner_id c w data owner key = None) (REQUIRED c) = Some key \<longrightarrow>
       fst (create c w data owner database) = Inl (MissingRequired key) \<and>
       db (snd (create c w data owner database)) = db w \<and>
       (\<forall>x. x \<noteq> next_ref w \<longrightarrow>
          self_id (heap (snd (create c w data owner database)) x) = self_id (heap w x))) \<and>
    (find (\<lambda>key. with_owner_id c w data owner key = None) (REQUIRED c) = None \<and>
     (c = Image \<longrightarrow> owner \<noteq> None \<and> data ''url'' \<noteq> None) \<longrightarrow>
       (\<exists>i row w1.
          create c w data owner database = (Inr (next_ref w), w1) \<and>
          self_id (heap w1 (next_ref w)) = Some i \<and>
          i \<notin> fst ` set (tables (db w) (TABLE c)) \<and>
          db w1 = (db w)\<lparr>tables := (tables (db w))
                    (TABLE c := tables (db w) (TABLE c) @ [(i, row)])\<rparr>))"
proof -
  from create_normal_form [OF assms, of data]
  obtain w5 where w5: "create c w data owner database = finish_init w5 (next_ref w)"
     "db w5 = db w" "next_ref w5 = Suc (next_ref w)"
     "self_id (heap w5 (next_ref w)) = None"
     "self_class (heap w5 (next_ref w)) = c"
     "self_database (heap w5 (next_ref w)) \<noteq> None"
     "self_data (heap w5 (next_ref w)) = with_owner_id c w data owner"
     "c = Image \<longrightarrow> self_dataset (heap w5 (next_ref w)) = owner"
     "\<forall>x. x \<noteq> next_ref w \<longrightarrow> self_id (heap w5 x) = self_id (heap w x)"
    by blast
  note fin = finish_init_fresh [OF w5(4), unfolded w5(5) w5(7)]
  have missing: "fst (create c w data owner database) = Inl (MissingRequired key) \<and>
       db (snd (create c w data owner database)) = db w \<and>
       (\<forall>x. x \<noteq> next_ref w \<longrightarrow>
          self_id (heap (snd (create c w data owner database)) x) = self_id (heap w x))"
    if "find (\<lambda>key. with_owner_id c w data owner key = None) (REQUIRED c) = Some key" for key
    using that w5(1,2,6,9) fin by auto
  have present: "\<exists>i row w1.
          create c w data owner database = (Inr (next_ref w), w1) \<and>
          self_id (heap w1 (next_ref w)) = Some i \<and>
          i \<notin> fst ` set (tables (db w) (TABLE c)) \<and>
          db w1 = (db w)\<lparr>tables := (tables (db w))
                    (TABLE c := tables (db w) (TABLE c) @ [(i, row)])\<rparr>"
    if none: "find (\<lambda>key. with_owner_id c w data owner key = None) (REQUIRED c) = None"
      and img: "c = Image \<longrightarrow> owner \<noteq> None \<and> data ''url'' \<noteq> None"
  proof -
    from none have req: "\<forall>k \<in> set (REQUIRED c). with_owner_id c w data owner k \<noteq> None"
      by (simp add: find_None_iff)
    have ins: "id_insertable w5 (next_ref w)"
    proof (cases c)
      case DataSet
      with req w5(4-7) show ?thesis by (auto simp: id_insertable_def Let_def)
    next
      case Image
      with img obtain ds where ds: "owner = Some ds" and url: "data ''url'' \<noteq> None" by auto
      with assms(1) Image have "ds < next_ref w" "self_id (heap w ds) \<noteq> None"
        by (auto simp: owner_identified_def)
      with w5(9) have "self_id (heap w5 ds) \<noteq> None" by auto
      moreover have "with_owner_id c w data owner ''url'' \<noteq> None"
        using url by (simp add: with_owner_id_keeps)
      ultimately show ?thesis
        using req Image ds w5(4-8) by (auto simp: id_insertable_def Let_def)
    next
      case ExtractedSource
      with w5(4-6) show ?thesis by (auto simp: id_insertable_def Let_def)
    qed
    from get_id_insert [OF ins] obtain i row where
      fresh: "i \<notin> fst ` set (tables (db w5) (TABLE c))"
      and g: "get_id w5 (next_ref w) =
         (Inr (IntV (int i)),
          put (w5\<lparr>db := (db w5)\<lparr>tables := (tables (db w5))
                   (TABLE c := tables (db w5) (TABLE c) @ [(i, row)])\<rparr>\<rparr>)
             (next_ref w) ((heap w5 (next_ref w))\<lparr>self_id := Some i\<rparr>))"
      unfolding w5(5) by blast
    let ?w1 = "put (w5\<lparr>db := (db w5)\<lparr>tables := (tables (db w5))
                   (TABLE c := tables (db w5) (TABLE c) @ [(i, row)])\<rparr>\<rparr>)
             (next_ref w) ((heap w5 (next_ref w))\<lparr>self_id := Some i\<rparr>)"
    from none w5(1,6) fin g have cr: "create c w data owner database = (Inr (next_ref w), ?w1)"
      by auto
    show ?thesis
      by (rule exI [of _ i], rule exI [of _ row], rule exI [of _ ?w1])
        (use cr fresh w5(2) in \<open>simp add: put_def\<close>)
  qed
  from missing present show ?thesis by blast
qed

theorem create_required_witness:
  "owner_identified Image example_world (Some 0) \<and>
   database_available Image example_world (Some 0) None \<and>
   fst (create Image example_world (example_image_data(''tau_time'' := None)) (Some 0) None)
     = Inl (MissingRequired ''tau_time'') \<and>
   db (snd (create Image example_world (example_image_data(''tau_time'' := None)) (Some 0) None))
     = db example_world \<and>
   fst (create Image example_world example_image_data (Some 0) None) = Inr 1 \<and>
   map fst (tables (db (snd (create Image example_world example_image_data (Some 0) None))) ''images'')
     = [1]"
proof -
  have m: "find (\<lambda>key. with_owner_id Image example_world (example_image_data(''tau_time'' := None))
                    (Some 0) key = None) (REQUIRED Image) = Some ''tau_time''"
    by (simp add: with_owner_id_def setdefault_def example_defs)
  have p: "find (\<lambda>key. with_owner_id Image example_world example_image_data (Some 0) key = None)
             (REQUIRED Image) = None \<and>
           (Image = Image \<longrightarrow> Some (0::nat) \<noteq> None \<and> example_image_data ''url'' \<noteq> None)"
    by (simp add: with_owner_id_def setdefault_def example_defs)
  note a = create_required [OF example_owner, of "example_image_data(''tau_time'' := None)",
      THEN conjunct1, rule_format, OF m]
  note b = create_required [OF example_owner, of example_image_data,
      THEN conjunct2, rule_format, OF p]
  have t: "tables (db example_world) (TABLE Image) = []" by (simp add: example_defs)
  from b t obtain i w1 where
    c: "create Image example_world example_image_data (Some 0) None = (Inr 1, w1)"
    and "map fst (tables (db w1) ''images'') = [i]" and "self_id (heap w1 1) = Some i"
    by (auto simp: example_defs)
  moreover have "self_id (heap (snd (create Image example_world example_image_data (Some 0) None)) 1)
      = Some 1"
    by (simp add: example_defs method_defs)
  ultimately have "map fst (tables (db (snd (create Image example_world example_image_data (Some 0) None)))
      ''images'') = [1]" by simp
  with a c example_owner show ?thesis by simp
qed

text \<open>
  C4 as stated fails for the documented way of creating an Image: the attribute map
  has no \<^verbatim>\<open>ds_id\<close>, which is in the required set, and creation succeeds, because the
  constructor takes \<^verbatim>\<open>ds_id\<close> from the dataset argument.
\<close>

theorem create_required_counterexample:
  "example_image_data ''ds_id'' = None \<and>
   ''ds_id'' \<in> set (REQUIRED Image) \<and>
   fst (create Image example_world example_image_data (Some 0) None) = Inr 1 \<and>
   map fst (tables (db (snd (create Image example_world example_image_data (Some 0) None))) ''images'')
     = [1]"
  by (simp add: example_defs method_defs)

text \<open>
  C1, as the code has it. Let fresh creation succeed, with a database available and an
  owner as for C4, and for an Image with a dataset given. Then loading a new instance
  by the assigned identity succeeds, and its snapshot equals the supplied attributes on
  the columns that the insert of the class copies from the attribute map:
  \<^verbatim>\<open>dsinname\<close> for a DataSet; \<^verbatim>\<open>freq_eff\<close>, \<^verbatim>\<open>freq_bw\<close>, \<^verbatim>\<open>taustart_ts\<close> and \<^verbatim>\<open>url\<close>
  for an Image; every supplied known column but \<^verbatim>\<open>xtrsrcid\<close> for an ExtractedSource.
  The \<^verbatim>\<open>ds_id\<close> read back for an Image is the identity of its dataset.
\<close>

theorem create_then_load:
  assumes "create c w data owner database = (Inr r, w1)"
    and "owner_identified c w owner" and "database_available c w owner database"
    and "c = Image \<longrightarrow> owner \<noteq> None"
  shows "\<exists>i w2.
    self_id (heap w1 r) = Some i \<and>
    load c w1 i = (Inr (next_ref w1), w2) \<and>
    (\<forall>k \<in> set (copied_columns c (db w)).
       data k \<noteq> None \<longrightarrow> self_data (heap w2 (next_ref w1)) k = data k) \<and>
    (\<forall>ds dsid. c = Image \<and> owner = Some ds \<and> self_id (heap w ds) = Some dsid \<longrightarrow>
       self_data (heap w2 (next_ref w1)) ''ds_id'' = Some (IntV (int dsid)))"
proof -
  from create_fresh_success [OF assms] obtain i row where
    i: "self_id (heap w1 r) = Some i"
    and fresh: "i \<notin> fst ` set (tables (db w) (TABLE c))"
    and db1: "db w1 = (db w)\<lparr>tables := (tables (db w))(TABLE c := tables (db w) (TABLE c) @ [(i, row)])\<rparr>"
    and cols: "\<forall>k \<in> set (copied_columns c (db w)). data k \<noteq> None \<longrightarrow> row k = data k"
    and dsid: "\<forall>ds dsid. c = Image \<and> owner = Some ds \<and> self_id (heap w ds) = Some dsid
          \<longrightarrow> row ''ds_id'' = Some (IntV (int dsid))"
    by blast
  have "columns_from_table (db w1) (TABLE c) (Some i) = row # []"
    unfolding db1 using fresh by (rule columns_from_table_appended)
  from load_row [OF this] obtain w2 where
    "load c w1 i = (Inr (next_ref w1), w2)" "self_data (heap w2 (next_ref w1)) = row"
    by blast
  with i cols dsid show ?thesis by auto
qed

theorem create_then_load_witness:
  "owner_identified Image example_world (Some 0) \<and>
   database_available Image example_world (Some 0) None \<and>
   fst (create Image example_world (example_image_data(''ds_id'' \<mapsto> IntV 99)) (Some 0) None) = Inr 1 \<and>
   self_id (heap created_world 1) = Some 1 \<and>
   fst (load Image created_world 1) = Inr 2 \<and>
   self_data (heap (snd (load Image created_world 1)) 2) ''url'' = Some (StrV ''/'') \<and>
   self_data (heap (snd (load Image created_world 1)) 2) ''freq_eff'' = Some (IntV 80000000)"
proof -
  have o: "Image = Image \<longrightarrow> Some (0::nat) \<noteq> None" by simp
  from create_then_load [OF created_world_result example_owner o]
  obtain i w2 where i: "self_id (heap created_world 1) = Some i"
    and l: "load Image created_world i = (Inr (next_ref created_world), w2)"
    and k: "\<forall>k \<in> set (copied_columns Image (db example_world)).
       (example_image_data(''ds_id'' \<mapsto> IntV 99)) k \<noteq> None \<longrightarrow>
         self_data (heap w2 (next_ref created_world)) k = (example_image_data(''ds_id'' \<mapsto> IntV 99)) k"
    by blast
  have i1: "self_id (heap created_world 1) = Some 1"
    by (simp add: created_world_def example_defs method_defs)
  have n: "next_ref created_world = 2"
    by (simp add: created_world_def example_defs method_defs)
  from i i1 have "i = 1" by simp
  with l n have l': "load Image created_world 1 = (Inr 2, w2)" by simp
  from k n have "self_data (heap w2 2) ''url'' = Some (StrV ''/'')"
    and "self_data (heap w2 2) ''freq_eff'' = Some (IntV 80000000)"
    by (simp_all add: example_image_data_def)
  with l' i1 created_world_result example_owner show ?thesis by simp
qed

text \<open>
  C1 as stated fails: an Image is created with \<^verbatim>\<open>ds_id\<close> 99 and \<^verbatim>\<open>tau_time\<close> 1800
  for the dataset with identity 1. Both are columns of \<^verbatim>\<open>images\<close>. The instance
  loaded by the assigned identity has \<^verbatim>\<open>ds_id\<close> 1, since \<^verbatim>\<open>Image.id\<close> inserts the
  identity of \<^verbatim>\<open>self.dataset\<close>; and it has no \<^verbatim>\<open>tau_time\<close>, which \<^verbatim>\<open>Image.id\<close> does
  not pass to \<^verbatim>\<open>dbu.insert_image\<close>.
\<close>

theorem create_then_load_counterexample:
  "fst (create Image example_world (example_image_data(''ds_id'' \<mapsto> IntV 99)) (Some 0) None) = Inr 1 \<and>
   self_id (heap created_world 1) = Some 1 \<and>
   fst (load Image created_world 1) = Inr 2 \<and>
   ''ds_id'' \<in> set (columns (db created_world) ''images'') \<and>
   (example_image_data(''ds_id'' \<mapsto> IntV 99)) ''ds_id'' = Some (IntV 99) \<and>
   self_data (heap (snd (load Image created_world 1)) 2) ''ds_id'' = Some (IntV 1) \<and>
   ''tau_time'' \<in> set (columns (db created_world) ''images'') \<and>
   (example_image_data(''ds_id'' \<mapsto> IntV 99)) ''tau_time'' = Some (IntV 1800) \<and>
   self_data (heap (snd (load Image created_world 1)) 2) ''tau_time'' = None"
  by (simp add: created_world_def example_defs method_defs)

end
